theory Spec2Isabelle
  imports Main "HOL-Library.Multiset" "HOL-Library.AList"
begin

section \<open>Errors as values\<close>

text \<open>
  Every exception the loader can let escape is a constructor of \<open>py_error\<close>; a
  computation that may raise returns \<open>py_error + 'a\<close>, with \<open>Inl\<close> for the raise.
  \<open>InvalidOperation\<close>, \<open>DivisionByZero\<close> and \<open>Overflow\<close> are the three signals
  that the default context of Python's \<open>decimal\<close> module traps; \<open>ParserError\<close> is
  what the date parser raises.
\<close>

datatype py_error =
    ValueError | AttributeError | KeyError | TypeError | RuntimeError
  | InvalidOperation | DivisionByZero | Overflow | ParserError

type_synonym 'a result = "py_error + 'a"

definition rbind :: "'a result \<Rightarrow> ('a \<Rightarrow> 'b result) \<Rightarrow> 'b result" where
  "rbind m f = (case m of Inl e \<Rightarrow> Inl e | Inr x \<Rightarrow> f x)"

section \<open>Strings\<close>

text \<open>
  A Python \<open>str\<close> is modelled as a \<open>string\<close>; a \<open>char\<close> stands for the code point
  of the same number (0 to 255).  In that range the decimal digits are the ASCII digits
  and \<open>str.isspace\<close> holds of the twelve characters below.  The behaviour modelled
  is that of CPython 3.11.
\<close>

definition isspace :: "char \<Rightarrow> bool" where
  "isspace c = (of_char c \<in> {9, 10, 11, 12, 13, 28, 29, 30, 31, 32, 133, 160 :: nat})"

definition isdigit :: "char \<Rightarrow> bool" where
  "isdigit c = (48 \<le> (of_char c :: nat) \<and> (of_char c :: nat) \<le> 57)"

definition digit_val :: "char \<Rightarrow> nat" where
  "digit_val c = of_char c - 48"

definition lower :: "char \<Rightarrow> char" where
  "lower c =
     (case map_of (zip ''ABCDEFGHIJKLMNOPQRSTUVWXYZ'' ''abcdefghijklmnopqrstuvwxyz'') c of
        Some l \<Rightarrow> l
      | None \<Rightarrow> c)"

text \<open>\<open>s.strip()\<close>\<close>

definition strip :: "string \<Rightarrow> string" where
  "strip s = rev (dropWhile isspace (rev (dropWhile isspace s)))"

text \<open>\<open>s.split(sep)\<close> for a separator of one character: never an empty list.\<close>

fun split :: "char \<Rightarrow> string \<Rightarrow> string list" where
  "split sep [] = [[]]"
| "split sep (c # cs) =
     (if c = sep then [] # split sep cs
      else (case split sep cs of
              [] \<Rightarrow> [[c]]
            | p # ps \<Rightarrow> (c # p) # ps))"

text \<open>The value of a string of decimal digits, \<open>int(ds)\<close>, and its inverse \<open>str(n)\<close>.\<close>

definition digits_val :: "string \<Rightarrow> nat" where
  "digits_val ds = foldl (\<lambda>a c. 10 * a + digit_val c) 0 ds"

definition digit_char :: "nat \<Rightarrow> char" where
  "digit_char d = ''0123456789'' ! d"

fun digits_of :: "nat \<Rightarrow> string" where
  "digits_of n =
     (if n < 10 then [digit_char n]
      else digits_of (n div 10) @ [digit_char (n mod 10)])"

declare digits_of.simps [simp del]

text \<open>\<open>len(str(n))\<close>: the number of decimal digits of a coefficient.\<close>

fun ndigits :: "nat \<Rightarrow> nat" where
  "ndigits n = (if n < 10 then 1 else Suc (ndigits (n div 10)))"

declare ndigits.simps [simp del]

section \<open>The decimal module\<close>

text \<open>
  \<open>decimal.Decimal\<close> as the module represents it: a finite number is a sign, a
  coefficient (the digit string \<open>_int\<close>, here its value) and an exponent; the special
  values are the infinities and the quiet and signalling NaNs with their payload
  (payload 0 is the empty payload).  \<open>True\<close> is the sign of a negative number.
\<close>

datatype decimal =
    Finite (dsign: bool) (dcoeff: nat) (dexp: int)
  | Infinity bool
  | NaN bool bool nat

datatype rounding = ROUND_HALF_EVEN | ROUND_UP

record dec_context =
  prec :: nat
  rounding_mode :: rounding
  Emax :: int
  Emin :: int

text \<open>
  The context the loader runs in: it never touches \<open>decimal.getcontext()\<close>, so this is
  the module's \<open>DefaultContext\<close> (\<open>clamp = 0\<close>; traps on \<open>InvalidOperation\<close>,
  \<open>DivisionByZero\<close> and \<open>Overflow\<close>).
\<close>

definition DefaultContext :: "dec_context" where
  "DefaultContext = \<lparr>prec = 28, rounding_mode = ROUND_HALF_EVEN, Emax = 999999, Emin = - 999999\<rparr>"

definition Etiny :: "dec_context \<Rightarrow> int" where
  "Etiny ctx = Emin ctx - int (prec ctx) + 1"

definition Etop :: "dec_context \<Rightarrow> int" where
  "Etop ctx = Emax ctx - int (prec ctx) + 1"

subsection \<open>Decimal(str)\<close>

text \<open>The exponent of a numeric string, \<open>[-+]?\d+\<close> up to the end of the string.\<close>

definition parse_exp :: "string \<Rightarrow> int option" where
  "parse_exp s =
     (let neg = (s \<noteq> [] \<and> hd s = CHR ''-'');
          r = (if s \<noteq> [] \<and> (hd s = CHR ''-'' \<or> hd s = CHR ''+'') then tl s else s)
      in if r \<noteq> [] \<and> list_all isdigit r
         then Some (if neg then - int (digits_val r) else int (digits_val r))
         else None)"

text \<open>
  The first alternative of the module's \<open>_parser\<close>: digits, an optional fraction, an
  optional exponent, with at least one digit before the exponent.
\<close>

definition parse_finite :: "bool \<Rightarrow> string \<Rightarrow> decimal option" where
  "parse_finite sign t =
     (let intpart = takeWhile isdigit t;
          r1 = dropWhile isdigit t;
          has_frac = (r1 \<noteq> [] \<and> hd r1 = CHR ''.'');
          fracpart = (if has_frac then takeWhile isdigit (tl r1) else []);
          r2 = (if has_frac then dropWhile isdigit (tl r1) else r1)
      in if intpart = [] \<and> fracpart = [] then None
         else if r2 = [] then
           Some (Finite sign (digits_val (intpart @ fracpart)) (- int (length fracpart)))
         else if lower (hd r2) = CHR ''e'' then
           (case parse_exp (tl r2) of
              None \<Rightarrow> None
            | Some ex \<Rightarrow>
                Some (Finite sign (digits_val (intpart @ fracpart)) (ex - int (length fracpart))))
         else None)"

text \<open>The other two alternatives: \<open>Inf(inity)?\<close> and \<open>(s)?NaN\d*\<close>, ignoring case.\<close>

definition parse_special :: "bool \<Rightarrow> string \<Rightarrow> decimal option" where
  "parse_special sign t =
     (let l = map lower t;
          signal = (l \<noteq> [] \<and> hd l = CHR ''s'');
          r = (if signal then tl l else l)
      in if l = ''inf'' \<or> l = ''infinity'' then Some (Infinity sign)
         else if take 3 r = ''nan'' \<and> list_all isdigit (drop 3 r)
         then Some (NaN sign signal (digits_val (drop 3 r)))
         else None)"

text \<open>
  \<open>Decimal(value)\<close> for a string: strip, drop the underscores, match; a string that
  does not match signals \<open>ConversionSyntax\<close>, raised as \<open>InvalidOperation\<close>.  The
  conversion is exact, and CPython's \<open>decimal\<close> (libmpdec, 64 bit) raises
  \<open>InvalidOperation\<close> as well when the number does not fit its widest context:
  when the adjusted exponent is above \<open>MAX_EMAX\<close> or the exponent below
  \<open>MIN_ETINY\<close>.
\<close>

definition MAX_EMAX :: int where
  "MAX_EMAX = 999999999999999999"

definition MIN_ETINY :: int where
  "MIN_ETINY = - 1999999999999999997"

definition Decimal :: "string \<Rightarrow> decimal result" where
  "Decimal v =
     (let u = filter (\<lambda>c. c \<noteq> CHR ''_'') (strip v);
          sign = (u \<noteq> [] \<and> hd u = CHR ''-'');
          t = (if u \<noteq> [] \<and> (hd u = CHR ''-'' \<or> hd u = CHR ''+'') then tl u else u)
      in case parse_finite sign t of
           Some d \<Rightarrow>
             (if dexp d + int (ndigits (dcoeff d)) - 1 > MAX_EMAX \<or> dexp d < MIN_ETINY
              then Inl InvalidOperation
              else Inr d)
         | None \<Rightarrow>
             (case parse_special sign t of
                Some d \<Rightarrow> Inr d
              | None \<Rightarrow> Inl InvalidOperation))"

subsection \<open>str(Decimal)\<close>

text \<open>\<open>"%+d" % i\<close>\<close>

definition signed_str :: "int \<Rightarrow> string" where
  "signed_str i = (if i < 0 then ''-'' else ''+'') @ digits_of (nat \<bar>i\<bar>)"

text \<open>\<open>Decimal.__str__\<close>: scientific notation, \<open>capitals = 1\<close>.\<close>

definition decimal_str :: "decimal \<Rightarrow> string" where
  "decimal_str d =
     (case d of
        Infinity s \<Rightarrow> (if s then ''-'' else '''') @ ''Infinity''
      | NaN s signal p \<Rightarrow>
          (if s then ''-'' else '''') @ (if signal then ''sNaN'' else ''NaN'')
            @ (if p = 0 then '''' else digits_of p)
      | Finite s c e \<Rightarrow>
          (let ds = digits_of c;
               leftdigits = e + int (length ds);
               dotplace = (if e \<le> 0 \<and> leftdigits > - 6 then leftdigits else 1);
               intpart = (if dotplace \<le> 0 then ''0''
                          else if dotplace \<ge> int (length ds)
                          then ds @ replicate (nat (dotplace - int (length ds))) CHR ''0''
                          else take (nat dotplace) ds);
               fracpart = (if dotplace \<le> 0
                           then ''.'' @ replicate (nat (- dotplace)) CHR ''0'' @ ds
                           else if dotplace \<ge> int (length ds) then ''''
                           else ''.'' @ drop (nat dotplace) ds);
               ex = (if leftdigits = dotplace then ''''
                     else ''E'' @ signed_str (leftdigits - dotplace))
           in (if s then ''-'' else '''') @ intpart @ fracpart @ ex))"

subsection \<open>Rounding\<close>

text \<open>
  The module's rounding functions take the coefficient and the number of leading
  digits to keep; here \<open>k\<close> is the number of trailing digits that are dropped.  The
  result is 1 when the kept digits are to be incremented, 0 when the dropped digits
  are all zero, and -1 when the coefficient is truncated.
\<close>

fun round_changed :: "rounding \<Rightarrow> nat \<Rightarrow> nat \<Rightarrow> int" where
  "round_changed ROUND_UP c k = (if c mod 10 ^ k = 0 then 0 else 1)"
| "round_changed ROUND_HALF_EVEN c k =
     (if c mod 10 ^ k = 5 * 10 ^ (k - 1) \<and> even (c div 10 ^ k) then - 1
      else if 5 * 10 ^ (k - 1) \<le> c mod 10 ^ k then 1
      else if c mod 10 ^ k = 0 then 0
      else - 1)"

text \<open>\<open>Decimal._fix_nan\<close> and \<open>Decimal._fix\<close>\<close>

definition fix_nan :: "dec_context \<Rightarrow> bool \<Rightarrow> bool \<Rightarrow> nat \<Rightarrow> decimal" where
  "fix_nan ctx s signal p =
     (if p \<noteq> 0 \<and> ndigits p > prec ctx then NaN s signal (p mod 10 ^ prec ctx)
      else NaN s signal p)"

definition fix_finite :: "dec_context \<Rightarrow> bool \<Rightarrow> nat \<Rightarrow> int \<Rightarrow> decimal result" where
  "fix_finite ctx s c e =
     (if c = 0 then Inr (Finite s 0 (min (max e (Etiny ctx)) (Emax ctx)))
      else
        let exp_min0 = int (ndigits c) + e - int (prec ctx) in
        if exp_min0 > Etop ctx then Inl Overflow
        else
          let exp_min = (if exp_min0 < Etiny ctx then Etiny ctx else exp_min0) in
          if e < exp_min then
            let digits0 = int (ndigits c) + e - exp_min;
                c1 = (if digits0 < 0 then 1 else c);
                digits = (if digits0 < 0 then 0 else nat digits0);
                k = ndigits c1 - digits;
                changed = round_changed (rounding_mode ctx) c1 k;
                coeff0 = c1 div 10 ^ k;
                coeff1 = (if changed > 0 then coeff0 + 1 else coeff0);
                carry = (changed > 0 \<and> ndigits coeff1 > prec ctx);
                coeff = (if carry then coeff1 div 10 else coeff1);
                exp_min' = (if carry then exp_min + 1 else exp_min)
            in if exp_min' > Etop ctx then Inl Overflow
               else Inr (Finite s coeff exp_min')
          else Inr (Finite s c e))"

definition fix_decimal :: "dec_context \<Rightarrow> decimal \<Rightarrow> decimal result" where
  "fix_decimal ctx d =
     (case d of
        NaN s signal p \<Rightarrow> Inr (fix_nan ctx s signal p)
      | Infinity s \<Rightarrow> Inr (Infinity s)
      | Finite s c e \<Rightarrow> fix_finite ctx s c e)"

text \<open>\<open>Decimal._check_nans\<close>: \<open>None\<close> when neither operand is a NaN.\<close>

definition check_nans :: "dec_context \<Rightarrow> decimal \<Rightarrow> decimal \<Rightarrow> decimal result option" where
  "check_nans ctx x y =
     (case (x, y) of
        (NaN sx True px, _) \<Rightarrow> Some (Inl InvalidOperation)
      | (NaN sx False px, NaN sy True py) \<Rightarrow> Some (Inl InvalidOperation)
      | (NaN sx False px, _) \<Rightarrow> Some (Inr (fix_nan ctx sx False px))
      | (_, NaN sy True py) \<Rightarrow> Some (Inl InvalidOperation)
      | (_, NaN sy False py) \<Rightarrow> Some (Inr (fix_nan ctx sy False py))
      | _ \<Rightarrow> None)"

subsection \<open>Division\<close>

text \<open>
  The loop of \<open>__truediv__\<close> that removes trailing zeros of an exact quotient while
  the exponent is below the ideal one.
\<close>

function strip_zeros :: "nat \<Rightarrow> int \<Rightarrow> int \<Rightarrow> nat \<times> int" where
  "strip_zeros coeff ex ideal_exp =
     (if ex < ideal_exp \<and> coeff mod 10 = 0
      then strip_zeros (coeff div 10) (ex + 1) ideal_exp
      else (coeff, ex))"
  by pat_completeness auto
termination
  by (relation "measure (\<lambda>(coeff, ex, ideal_exp). nat (ideal_exp - ex))") auto

declare strip_zeros.simps [simp del]

text \<open>\<open>Decimal.__truediv__\<close>\<close>

definition divide :: "dec_context \<Rightarrow> decimal \<Rightarrow> decimal \<Rightarrow> decimal result" where
  "divide ctx x y =
     (case check_nans ctx x y of
        Some r \<Rightarrow> r
      | None \<Rightarrow>
          (case (x, y) of
             (Infinity sx, Infinity sy) \<Rightarrow> Inl InvalidOperation
           | (Infinity sx, Finite sy cy ey) \<Rightarrow> Inr (Infinity (sx \<noteq> sy))
           | (Finite sx cx ex, Infinity sy) \<Rightarrow> Inr (Finite (sx \<noteq> sy) 0 (Etiny ctx))
           | (Finite sx cx ex, Finite sy cy ey) \<Rightarrow>
               (if cy = 0 then (if cx = 0 then Inl InvalidOperation else Inl DivisionByZero)
                else if cx = 0 then fix_finite ctx (sx \<noteq> sy) 0 (ex - ey)
                else
                  let shift = int (ndigits cy) - int (ndigits cx) + int (prec ctx) + 1;
                      ex0 = ex - ey - shift;
                      num = (if shift \<ge> 0 then cx * 10 ^ nat shift else cx);
                      den = (if shift \<ge> 0 then cy else cy * 10 ^ nat (- shift));
                      coeff = num div den;
                      remainder = num mod den
                  in if remainder \<noteq> 0
                     then fix_finite ctx (sx \<noteq> sy)
                            (if coeff mod 5 = 0 then coeff + 1 else coeff) ex0
                     else (case strip_zeros coeff ex0 (ex - ey) of
                             (coeff', ex') \<Rightarrow> fix_finite ctx (sx \<noteq> sy) coeff' ex'))
           | _ \<Rightarrow> Inl InvalidOperation))"

subsection \<open>Quantize\<close>

text \<open>\<open>Decimal._rescale\<close> of a finite number\<close>

definition rescale :: "bool \<Rightarrow> nat \<Rightarrow> int \<Rightarrow> int \<Rightarrow> rounding \<Rightarrow> decimal" where
  "rescale s c e ex rnd =
     (if c = 0 then Finite s 0 ex
      else if e \<ge> ex then Finite s (c * 10 ^ nat (e - ex)) ex
      else
        let digits0 = int (ndigits c) + e - ex;
            c1 = (if digits0 < 0 then 1 else c);
            digits = (if digits0 < 0 then 0 else nat digits0);
            k = ndigits c1 - digits;
            changed = round_changed rnd c1 k;
            coeff0 = c1 div 10 ^ k
        in Finite s (if changed = 1 then coeff0 + 1 else coeff0) ex)"

text \<open>\<open>Decimal.quantize(exp, rounding)\<close>\<close>

definition quantize :: "dec_context \<Rightarrow> decimal \<Rightarrow> decimal \<Rightarrow> rounding \<Rightarrow> decimal result" where
  "quantize ctx x q rnd =
     (case check_nans ctx x q of
        Some r \<Rightarrow> r
      | None \<Rightarrow>
          (case (x, q) of
             (Infinity sx, Infinity sq) \<Rightarrow> Inr (Infinity sx)
           | (Finite s c e, Finite sq cq eq) \<Rightarrow>
               (if \<not> (Etiny ctx \<le> eq \<and> eq \<le> Emax ctx) then Inl InvalidOperation
                else if c = 0 then fix_finite ctx s 0 eq
                else if e + int (ndigits c) - 1 > Emax ctx then Inl InvalidOperation
                else if e + int (ndigits c) - 1 - eq + 1 > int (prec ctx) then Inl InvalidOperation
                else
                  (case rescale s c e eq rnd of
                     Finite s' c' e' \<Rightarrow>
                       (if e' + int (ndigits c') - 1 > Emax ctx then Inl InvalidOperation
                        else if ndigits c' > prec ctx then Inl InvalidOperation
                        else fix_finite ctx s' c' e')
                   | _ \<Rightarrow> Inl InvalidOperation))
           | _ \<Rightarrow> Inl InvalidOperation))"

section \<open>The fraction parser\<close>

text \<open>
  \<open>_parse_number\<close>: \<open>num, denum = numstring.split("/")\<close> raises \<open>ValueError\<close>
  unless the split has exactly two parts; the quotient is taken in the current
  context, printed, read back and quantized to the exponent of \<open>Decimal('.01')\<close>
  with \<open>ROUND_UP\<close>.
\<close>

definition parse_number :: "string \<Rightarrow> decimal result" where
  "parse_number numstring =
     (case split CHR ''/'' numstring of
        [num, denum] \<Rightarrow>
          rbind (Decimal num) (\<lambda>n.
          rbind (Decimal denum) (\<lambda>d.
          rbind (divide DefaultContext n d) (\<lambda>amount_dec.
          rbind (Decimal (decimal_str amount_dec)) (\<lambda>a.
          rbind (Decimal ''.01'') (\<lambda>q.
            quantize DefaultContext a q ROUND_UP)))))
      | _ \<Rightarrow> Inl ValueError)"

section \<open>Python values used by the loader\<close>

text \<open>
  \<open>int(s)\<close> for a string.  The whitespace that \<open>int\<close> skips at both ends is
  not all of \<open>str.isspace\<close>: the separators U+001C to U+001F are not skipped.
  After an optional sign come decimal digits, with single underscores allowed between
  digits; more than \<open>int_max_str_digits\<close> digits raise \<open>ValueError\<close>, as every
  other malformed string does.  \<open>int(None)\<close> raises \<open>TypeError\<close>.
\<close>

definition int_space :: "char \<Rightarrow> bool" where
  "int_space c = (of_char c \<in> {9, 10, 11, 12, 13, 32, 133, 160 :: nat})"

definition int_max_str_digits :: nat where
  "int_max_str_digits = 4300"

fun int_body_ok :: "string \<Rightarrow> bool" where
  "int_body_ok [] = False"
| "int_body_ok [c] = isdigit c"
| "int_body_ok (c # d # cs) =
     (isdigit c \<and> (if d = CHR ''_'' then cs \<noteq> [] \<and> int_body_ok cs else int_body_ok (d # cs)))"

definition py_int :: "string option \<Rightarrow> int result" where
  "py_int v =
     (case v of
        None \<Rightarrow> Inl TypeError
      | Some s \<Rightarrow>
          (let u = rev (dropWhile int_space (rev (dropWhile int_space s)));
               neg = (u \<noteq> [] \<and> hd u = CHR ''-'');
               t = (if u \<noteq> [] \<and> (hd u = CHR ''-'' \<or> hd u = CHR ''+'') then tl u else u);
               ds = filter (\<lambda>c. c \<noteq> CHR ''_'') t
           in if int_body_ok t \<and> length ds \<le> int_max_str_digits
              then Inr (if neg then - int (digits_val ds) else int (digits_val ds))
              else Inl ValueError))"

text \<open>\<open>str(v)\<close> as \<open>format\<close> prints a value that is a string or \<open>None\<close>.\<close>

definition py_str :: "string option \<Rightarrow> string" where
  "py_str v = (case v of None \<Rightarrow> ''None'' | Some s \<Rightarrow> s)"

text \<open>
  A \<open>dict\<close> is an association list in insertion order with distinct keys:
  \<open>d[k] = v\<close> is \<open>AList.update k v d\<close> (an existing key keeps its place), \<open>d[k]\<close>
  raises \<open>KeyError\<close> for a missing key, \<open>d.values()\<close> is \<open>map snd d\<close>.
\<close>

definition dict_get :: "('k \<times> 'v) list \<Rightarrow> 'k \<Rightarrow> 'v result" where
  "dict_get d k = (case map_of d k of None \<Rightarrow> Inl KeyError | Some v \<Rightarrow> Inr v)"

text \<open>A loop over a list whose body may raise: the first raise ends the loop.\<close>

fun rfold :: "('a \<Rightarrow> 's \<Rightarrow> 's result) \<Rightarrow> 'a list \<Rightarrow> 's \<Rightarrow> 's result" where
  "rfold f [] s = Inr s"
| "rfold f (x # xs) s = rbind (f x s) (rfold f xs)"

section \<open>XML elements\<close>

text \<open>
  An \<open>ElementTree\<close> element: tag, attributes, the text before the first child
  (\<open>None\<close> when there is none) and the children in document order.  A qualified
  tag is written \<open>{uri}local\<close>.
\<close>

datatype element =
  Element (tag: string) (attrib: "(string \<times> string) list") (etext: "string option")
    (children: "element list")

text \<open>
  \<open>e.findall(path)\<close> and \<open>e.find(path)\<close> for a path of tag names, one list entry for
  each step of the path: each step selects the children with that tag.
\<close>

fun findall_path :: "string list \<Rightarrow> element \<Rightarrow> element list" where
  "findall_path [] e = [e]"
| "findall_path (t # ts) e =
     concat (map (findall_path ts) (filter (\<lambda>c. tag c = t) (children e)))"

declare findall_path.simps [simp del]

definition find_path :: "string list \<Rightarrow> element \<Rightarrow> element option" where
  "find_path p e = (case findall_path p e of [] \<Rightarrow> None | x # xs \<Rightarrow> Some x)"

text \<open>\<open>x.text\<close> where \<open>x\<close> may be \<open>None\<close>: an attribute of \<open>None\<close> raises.\<close>

definition text_of :: "element option \<Rightarrow> string option result" where
  "text_of x = (case x of None \<Rightarrow> Inl AttributeError | Some e \<Rightarrow> Inr (etext e))"

text \<open>\<open>x.text if x is not None else None\<close>\<close>

definition opt_text :: "element option \<Rightarrow> string option" where
  "opt_text x = (case x of None \<Rightarrow> None | Some e \<Rightarrow> etext e)"

text \<open>\<open>e.get(key, default)\<close>\<close>

definition get_attr :: "element \<Rightarrow> string \<Rightarrow> string \<Rightarrow> string" where
  "get_attr e k d = (case map_of (attrib e) k of None \<Rightarrow> d | Some v \<Rightarrow> v)"

text \<open>The namespaces of the GnuCash file format.\<close>

definition ns :: "string \<Rightarrow> string \<Rightarrow> string" where
  "ns p t = ''{http://www.gnucash.org/XML/'' @ p @ ''}'' @ t"

text \<open>\<open>_parse_number(x.text)\<close>: \<open>None.split\<close> raises \<open>AttributeError\<close>.\<close>

definition parse_number_text :: "string option \<Rightarrow> decimal result" where
  "parse_number_text v = (case v of None \<Rightarrow> Inl AttributeError | Some s \<Rightarrow> parse_number s)"

section \<open>Slots\<close>

text \<open>
  The values a slot can hold.  Dates are what \<open>dateutil.parser.parse\<close> returns; the
  date parser is a parameter \<open>pd\<close> of the loader, from the text of an element to a
  date or an error.
\<close>

datatype 'd slot_value =
    SInt int
  | SDecimal decimal
  | SText "string option"
  | SDate 'd
  | SFrame "(string option \<times> 'd slot_value) list"

type_synonym 'd slots = "(string option \<times> 'd slot_value) list"

lemma rbind_cong [fundef_cong]:
  "m = m' \<Longrightarrow> (\<And>x. m' = Inr x \<Longrightarrow> f x = f' x) \<Longrightarrow> rbind m f = rbind m' f'"
  by (auto simp: rbind_def split: sum.splits)

lemma findall_path_single:
  "findall_path [t] e = filter (\<lambda>c. tag c = t) (children e)"
proof -
  have "concat (map (findall_path []) xs) = xs" for xs
    by (induction xs) (auto simp: findall_path.simps)
  then show ?thesis by (simp add: findall_path.simps)
qed

lemma size_findall_path_step:
  "size_list size (findall_path [t] e) < size e"
proof -
  have "size_list size (filter P xs) \<le> size_list size xs" for P and xs :: "element list"
    by (induction xs) auto
  then have "size_list size (filter (\<lambda>c. tag c = t) (children e)) < size e"
    by (cases e) (simp add: le_imp_less_Suc)
  then show ?thesis by (simp only: findall_path_single)
qed

lemma size_find_path_step:
  assumes "find_path [t] e = Some x"
  shows "size x < size e"
proof -
  from assms have "x \<in> set (findall_path [t] e)"
    by (auto simp: find_path_def split: list.splits)
  then have "size x \<le> size_list size (findall_path [t] e)"
    by (simp add: size_list_estimation')
  with size_findall_path_step [of t e] show ?thesis by simp
qed

lemma size_nested_frame:
  assumes "find_path [t] elt = Some v"
  shows "size_list size (findall_path [t'] v) < Suc (size elt + n)"
  using size_find_path_step [OF assms] size_findall_path_step [of t' v] by simp

text \<open>
  \<open>_slots_from_tree\<close>: the loop over the \<open>slot\<close> children of a frame, with the
  dictionary built so far.  A value of type \<open>frame\<close> is parsed by the recursive call
  on the value element.
\<close>

function slots_loop ::
  "(string option \<Rightarrow> 'd result) \<Rightarrow> element list \<Rightarrow> 'd slots \<Rightarrow> 'd slots result" where
  "slots_loop pd [] slots = Inr slots"
| "slots_loop pd (elt # elts) slots =
     rbind (text_of (find_path [ns ''slot'' ''key''] elt)) (\<lambda>key.
       case find_path [ns ''slot'' ''value''] elt of
         None \<Rightarrow> Inl AttributeError
       | Some v \<Rightarrow>
           (let ty = get_attr v ''type'' ''string'' in
            if ty = ''integer'' \<or> ty = ''double'' then
              rbind (py_int (etext v)) (\<lambda>i.
                slots_loop pd elts (AList.update key (SInt i) slots))
            else if ty = ''numeric'' then
              rbind (parse_number_text (etext v)) (\<lambda>n.
                slots_loop pd elts (AList.update key (SDecimal n) slots))
            else if ty = ''string'' \<or> ty = ''guid'' then
              slots_loop pd elts (AList.update key (SText (etext v)) slots)
            else if ty = ''gdate'' then
              rbind (text_of (find_path [''gdate''] v)) (\<lambda>t.
              rbind (pd t) (\<lambda>d.
                slots_loop pd elts (AList.update key (SDate d) slots)))
            else if ty = ''timespec'' then
              rbind (text_of (find_path [ns ''ts'' ''date''] v)) (\<lambda>t.
              rbind (pd t) (\<lambda>d.
                slots_loop pd elts (AList.update key (SDate d) slots)))
            else if ty = ''frame'' then
              rbind (slots_loop pd (findall_path [''slot''] v) []) (\<lambda>m.
                slots_loop pd elts (AList.update key (SFrame m) slots))
            else Inl RuntimeError))"
  by pat_completeness auto
termination
  by (relation "measure (\<lambda>(pd, elts, slots). size_list size elts)")
    (auto intro: size_nested_frame)

definition slots_from_tree ::
  "(string option \<Rightarrow> 'd result) \<Rightarrow> element option \<Rightarrow> 'd slots result" where
  "slots_from_tree pd tree =
     (case tree of
        None \<Rightarrow> Inr []
      | Some t \<Rightarrow> slots_loop pd (findall_path [''slot''] t) [])"

section \<open>The object model\<close>

text \<open>
  The classes of the module, one record each; a field \<open>x_f\<close> is the attribute \<open>f\<close>.
  An attribute read from the text of an element is a \<open>string option\<close>, \<open>None\<close>
  being Python's \<open>None\<close> (the text of an empty element).

  Commodities and accounts are objects with identity: they live in a heap (a list,
  the address of an object being its index, in order of construction) and are
  referred to by address.  Transactions are referred to by their index in the
  book's list of transactions.  The other objects are never mutated after
  construction and never compared by identity; they are values.
\<close>

type_synonym addr = nat

record Commodity =
  c_name :: "string option"
  c_space :: "string option"

record 'd Split =
  s_guid :: "string option"
  s_memo :: "string option"
  s_reconciled_state :: "string option"
  s_reconcile_date :: "'d option"
  s_value :: decimal
  s_quantity :: decimal
  s_account :: addr
  s_transaction :: nat
  s_action :: "string option"
  s_slots :: "'d slots"

record 'd Account =
  a_name :: "string option"
  a_guid :: "string option"
  a_actype :: "string option"
  a_description :: "string option"
  a_parent :: "addr option"
  a_children :: "addr list"
  a_commodity :: "addr option"
  a_commodity_scu :: "string option"
  a_splits :: "'d Split list"
  a_slots :: "'d slots"

record 'd Transaction =
  t_guid :: "string option"
  t_currency :: addr
  t_date :: 'd
  t_post_date :: 'd
  t_date_entered :: 'd
  t_description :: "string option"
  t_num :: "string option"
  t_splits :: "'d Split list"
  t_slots :: "'d slots"

record 'd Price =
  p_guid :: "string option"
  p_commodity :: addr
  p_currency :: addr
  p_date :: 'd
  p_value :: decimal

record Customer =
  cu_guid :: "string option"
  cu_name :: "string option"
  cu_address :: "string option list"

record Vendor =
  v_guid :: "string option"
  v_name :: "string option"

record Taxtableentry =
  tte_amount :: decimal
  tte_type :: "string option"

record Taxtable =
  tt_guid :: "string option"
  tt_name :: "string option"
  tt_entries :: "Taxtableentry list"

record Entry =
  e_action :: "string option"
  e_description :: "string option"
  e_guid :: "string option"
  e_invoice_guid :: "string option"
  e_price :: "decimal option"
  e_qty :: "decimal option"
  e_taxable :: "string option"
  e_taxtable :: "Taxtable option"

record 'd Invoice =
  i_active :: "string option"
  i_customer :: "Customer option"
  i_date :: 'd
  i_id :: "string option"
  i_entries :: "Entry list"
  i_guid :: "string option"
  i_vendor :: "Vendor option"

record 'd Book =
  b_guid :: "string option"
  b_prices :: "'d Price list"
  b_transactions :: "'d Transaction list"
  b_root_account :: "addr option"
  b_accounts :: "addr list"
  b_commodities :: "addr list"
  b_slots :: "'d slots"
  b_invoices :: "'d Invoice list"
  b_commodity_heap :: "Commodity list"
  b_account_heap :: "'d Account list"

type_synonym commoditydict = "((string option \<times> string option) \<times> addr) list"
type_synonym accountdict = "(string option \<times> addr) list"
type_synonym parentdict = "(string option \<times> string option) list"

section \<open>The loader\<close>

subsection \<open>Commodities and prices\<close>

text \<open>
  \<open>_commodity_from_tree\<close> constructs a \<open>Commodity\<close>: a new object on the heap,
  whose address is returned.
\<close>

definition commodity_from_tree :: "element \<Rightarrow> Commodity list \<Rightarrow> (addr \<times> Commodity list) result" where
  "commodity_from_tree tree heap =
     rbind (text_of (find_path [ns ''cmdty'' ''id''] tree)) (\<lambda>name.
     rbind (text_of (find_path [ns ''cmdty'' ''space''] tree)) (\<lambda>space.
       Inr (length heap, heap @ [\<lparr>c_name = name, c_space = space\<rparr>])))"

text \<open>
  \<open>_commodity_find\<close>: \<open>commoditydict.setdefault((space, name), Commodity(name, space))\<close>.
  The argument is constructed before the call, so a new object is allocated in either
  case; it is stored only when the key is new, and the stored object is returned.
\<close>

definition commodity_find ::
  "Commodity list \<Rightarrow> commoditydict \<Rightarrow> string option \<Rightarrow> string option
    \<Rightarrow> addr \<times> Commodity list \<times> commoditydict" where
  "commodity_find heap d space name =
     (let new = length heap;
          heap' = heap @ [\<lparr>c_name = name, c_space = space\<rparr>]
      in case map_of d (space, name) of
           Some a \<Rightarrow> (a, heap', d)
         | None \<Rightarrow> (new, heap', d @ [((space, name), new)]))"

text \<open>The body of the loop over the \<open>gnc:commodity\<close> children of the book.\<close>

definition commodity_step ::
  "element \<Rightarrow> addr list \<times> Commodity list \<times> commoditydict
    \<Rightarrow> (addr list \<times> Commodity list \<times> commoditydict) result" where
  "commodity_step child st =
     (case st of (commodities, heap, d) \<Rightarrow>
        rbind (commodity_from_tree child heap) (\<lambda>(comm, heap1).
          case commodity_find heap1 d (c_space (heap1 ! comm)) (c_name (heap1 ! comm)) of
            (a, heap2, d') \<Rightarrow> Inr (commodities @ [a], heap2, d')))"

text \<open>\<open>_price_from_tree\<close>\<close>

definition price_from_tree ::
  "(string option \<Rightarrow> 'd result) \<Rightarrow> element \<Rightarrow> Commodity list \<Rightarrow> commoditydict
    \<Rightarrow> ('d Price \<times> Commodity list \<times> commoditydict) result" where
  "price_from_tree pd tree heap d =
     rbind (text_of (find_path [ns ''price'' ''id''] tree)) (\<lambda>guid.
     rbind (text_of (find_path [ns ''price'' ''value''] tree)) (\<lambda>vt.
     rbind (parse_number_text vt) (\<lambda>val.
     rbind (text_of (find_path [ns ''price'' ''time'', ns ''ts'' ''date''] tree)) (\<lambda>dt.
     rbind (pd dt) (\<lambda>date.
     rbind (text_of (find_path [ns ''price'' ''currency'', ns ''cmdty'' ''space''] tree)) (\<lambda>currency_space.
     rbind (text_of (find_path [ns ''price'' ''currency'', ns ''cmdty'' ''id''] tree)) (\<lambda>currency_name.
       case commodity_find heap d currency_space currency_name of
         (currency, heap1, d1) \<Rightarrow>
     rbind (text_of (find_path [ns ''price'' ''commodity'', ns ''cmdty'' ''space''] tree)) (\<lambda>commodity_space.
     rbind (text_of (find_path [ns ''price'' ''commodity'', ns ''cmdty'' ''id''] tree)) (\<lambda>commodity_name.
       case commodity_find heap1 d1 commodity_space commodity_name of
         (commodity, heap2, d2) \<Rightarrow>
           Inr (\<lparr>p_guid = guid, p_commodity = commodity, p_currency = currency,
                 p_date = date, p_value = val\<rparr>, heap2, d2))))))))))"

definition price_step ::
  "(string option \<Rightarrow> 'd result) \<Rightarrow> element \<Rightarrow> 'd Price list \<times> Commodity list \<times> commoditydict
    \<Rightarrow> ('d Price list \<times> Commodity list \<times> commoditydict) result" where
  "price_step pd child st =
     (case st of (prices, heap, d) \<Rightarrow>
        rbind (price_from_tree pd child heap d) (\<lambda>(price, heap', d').
          Inr (prices @ [price], heap', d')))"

subsection \<open>Accounts\<close>

text \<open>\<open>_account_from_tree\<close>: the declared parent guid and the new account.\<close>

definition account_from_tree ::
  "(string option \<Rightarrow> 'd result) \<Rightarrow> commoditydict \<Rightarrow> element
    \<Rightarrow> (string option \<times> 'd Account) result" where
  "account_from_tree pd commoditydict tree =
     rbind (text_of (find_path [ns ''act'' ''name''] tree)) (\<lambda>name.
     rbind (text_of (find_path [ns ''act'' ''id''] tree)) (\<lambda>guid.
     rbind (text_of (find_path [ns ''act'' ''type''] tree)) (\<lambda>actype.
     rbind (slots_from_tree pd (find_path [ns ''act'' ''slots''] tree)) (\<lambda>slots.
       if actype = Some ''ROOT'' then
         Inr (None,
              \<lparr>a_name = name, a_guid = guid, a_actype = actype,
               a_description = opt_text (find_path [ns ''act'' ''description''] tree),
               a_parent = None, a_children = [], a_commodity = None,
               a_commodity_scu = None, a_splits = [], a_slots = slots\<rparr>)
       else
         rbind (text_of (find_path [ns ''act'' ''parent''] tree)) (\<lambda>parent_guid.
         rbind (text_of (find_path [ns ''act'' ''commodity'', ns ''cmdty'' ''space''] tree)) (\<lambda>commodity_space.
         rbind (text_of (find_path [ns ''act'' ''commodity'', ns ''cmdty'' ''id''] tree)) (\<lambda>commodity_name.
         rbind (text_of (find_path [ns ''act'' ''commodity-scu''] tree)) (\<lambda>commodity_scu.
         rbind (dict_get commoditydict (commodity_space, commodity_name)) (\<lambda>commodity.
           Inr (parent_guid,
                \<lparr>a_name = name, a_guid = guid, a_actype = actype,
                 a_description = opt_text (find_path [ns ''act'' ''description''] tree),
                 a_parent = None, a_children = [], a_commodity = Some commodity,
                 a_commodity_scu = commodity_scu, a_splits = [], a_slots = slots\<rparr>))))))))))"

text \<open>
  Pass 1: the body of the loop over the \<open>gnc:account\<close> children.  The state is
  \<open>root_account\<close>, the heap of accounts, \<open>accountdict\<close> and \<open>parentdict\<close>.
\<close>

definition account_step ::
  "(string option \<Rightarrow> 'd result) \<Rightarrow> commoditydict \<Rightarrow> element
    \<Rightarrow> addr option \<times> 'd Account list \<times> accountdict \<times> parentdict
    \<Rightarrow> (addr option \<times> 'd Account list \<times> accountdict \<times> parentdict) result" where
  "account_step pd commoditydict child st =
     (case st of (root_account, heap, accountdict, parentdict) \<Rightarrow>
        rbind (account_from_tree pd commoditydict child) (\<lambda>(parent_guid, acc).
          Inr (if a_actype acc = Some ''ROOT'' then Some (length heap) else root_account,
               heap @ [acc],
               AList.update (a_guid acc) (length heap) accountdict,
               AList.update (a_guid acc) parent_guid parentdict)))"

text \<open>
  Pass 2: the body of the loop over \<open>list(accountdict.values())\<close>.  The state is
  the heap of accounts and the list \<open>accounts\<close>.
\<close>

definition link_step ::
  "accountdict \<Rightarrow> parentdict \<Rightarrow> addr \<Rightarrow> 'd Account list \<times> addr list
    \<Rightarrow> ('d Account list \<times> addr list) result" where
  "link_step accountdict parentdict acc st =
     (case st of (heap, accounts) \<Rightarrow>
        if a_parent (heap ! acc) = None \<and> a_actype (heap ! acc) \<noteq> Some ''ROOT'' then
          rbind (dict_get parentdict (a_guid (heap ! acc))) (\<lambda>parent_guid.
          rbind (dict_get accountdict parent_guid) (\<lambda>parent.
            let heap1 = heap[acc := (heap ! acc)\<lparr>a_parent := Some parent\<rparr>];
                heap2 = heap1[parent := (heap1 ! parent)
                          \<lparr>a_children := a_children (heap1 ! parent) @ [acc]\<rparr>]
            in Inr (heap2, accounts @ [acc])))
        else Inr (heap, accounts))"

subsection \<open>Transactions and splits\<close>

text \<open>
  \<open>_split_from_tree\<close>: the new split, appended to the splits of its account.
  \<open>tr\<close> is the transaction under construction.
\<close>

definition split_from_tree ::
  "(string option \<Rightarrow> 'd result) \<Rightarrow> accountdict \<Rightarrow> nat \<Rightarrow> element \<Rightarrow> 'd Account list
    \<Rightarrow> ('d Split \<times> 'd Account list) result" where
  "split_from_tree pd accountdict tr tree heap =
     rbind (text_of (find_path [ns ''split'' ''id''] tree)) (\<lambda>guid.
     rbind (text_of (find_path [ns ''split'' ''reconciled-state''] tree)) (\<lambda>reconciled_state.
     rbind (case find_path [ns ''split'' ''reconcile-date'', ns ''ts'' ''date''] tree of
              None \<Rightarrow> Inr None
            | Some r \<Rightarrow> rbind (pd (etext r)) (\<lambda>d. Inr (Some d))) (\<lambda>reconcile_date.
     rbind (text_of (find_path [ns ''split'' ''value''] tree)) (\<lambda>vt.
     rbind (parse_number_text vt) (\<lambda>val.
     rbind (text_of (find_path [ns ''split'' ''quantity''] tree)) (\<lambda>qt.
     rbind (parse_number_text qt) (\<lambda>quantity.
     rbind (text_of (find_path [ns ''split'' ''account''] tree)) (\<lambda>account_guid.
     rbind (dict_get accountdict account_guid) (\<lambda>account.
     rbind (slots_from_tree pd (find_path [ns ''split'' ''slots''] tree)) (\<lambda>slots.
       let sp = \<lparr>s_guid = guid,
                 s_memo = opt_text (find_path [ns ''split'' ''memo''] tree),
                 s_reconciled_state = reconciled_state,
                 s_reconcile_date = reconcile_date,
                 s_value = val, s_quantity = quantity,
                 s_account = account, s_transaction = tr,
                 s_action = opt_text (find_path [ns ''split'' ''action''] tree),
                 s_slots = slots\<rparr>
       in Inr (sp, heap[account := (heap ! account)
                          \<lparr>a_splits := a_splits (heap ! account) @ [sp]\<rparr>])))))))))))"

definition split_step ::
  "(string option \<Rightarrow> 'd result) \<Rightarrow> accountdict \<Rightarrow> nat \<Rightarrow> element
    \<Rightarrow> 'd Split list \<times> 'd Account list \<Rightarrow> ('d Split list \<times> 'd Account list) result" where
  "split_step pd accountdict tr subtree st =
     (case st of (splits, heap) \<Rightarrow>
        rbind (split_from_tree pd accountdict tr subtree heap) (\<lambda>(sp, heap').
          Inr (splits @ [sp], heap')))"

text \<open>\<open>_transaction_from_tree\<close>; \<open>tr\<close> is the index the transaction will have.\<close>

definition transaction_from_tree ::
  "(string option \<Rightarrow> 'd result) \<Rightarrow> accountdict \<Rightarrow> commoditydict \<Rightarrow> nat \<Rightarrow> element
    \<Rightarrow> 'd Account list \<Rightarrow> ('d Transaction \<times> 'd Account list) result" where
  "transaction_from_tree pd accountdict commoditydict tr tree heap =
     rbind (text_of (find_path [ns ''trn'' ''id''] tree)) (\<lambda>guid.
     rbind (text_of (find_path [ns ''trn'' ''currency'', ns ''cmdty'' ''space''] tree)) (\<lambda>currency_space.
     rbind (text_of (find_path [ns ''trn'' ''currency'', ns ''cmdty'' ''id''] tree)) (\<lambda>currency_name.
     rbind (dict_get commoditydict (currency_space, currency_name)) (\<lambda>currency.
     rbind (text_of (find_path [ns ''trn'' ''date-posted'', ns ''ts'' ''date''] tree)) (\<lambda>dt.
     rbind (pd dt) (\<lambda>date.
     rbind (text_of (find_path [ns ''trn'' ''date-entered'', ns ''ts'' ''date''] tree)) (\<lambda>et.
     rbind (pd et) (\<lambda>date_entered.
     rbind (text_of (find_path [ns ''trn'' ''description''] tree)) (\<lambda>description.
     rbind (slots_from_tree pd (find_path [ns ''trn'' ''slots''] tree)) (\<lambda>slots.
     rbind (rfold (split_step pd accountdict tr)
              (findall_path [ns ''trn'' ''splits'', ns ''trn'' ''split''] tree) ([], heap))
       (\<lambda>(splits, heap').
         let num = opt_text (find_path [ns ''trn'' ''num''] tree)
         in Inr (\<lparr>t_guid = guid, t_currency = currency, t_date = date, t_post_date = date,
                   t_date_entered = date_entered, t_description = description,
                   t_num = (if num = Some [] then None else num),
                   t_splits = splits, t_slots = slots\<rparr>, heap'))))))))))))"

definition transaction_step ::
  "(string option \<Rightarrow> 'd result) \<Rightarrow> accountdict \<Rightarrow> commoditydict \<Rightarrow> element
    \<Rightarrow> 'd Transaction list \<times> 'd Account list
    \<Rightarrow> ('d Transaction list \<times> 'd Account list) result" where
  "transaction_step pd accountdict commoditydict child st =
     (case st of (transactions, heap) \<Rightarrow>
        rbind (transaction_from_tree pd accountdict commoditydict (length transactions) child heap)
          (\<lambda>(t, heap'). Inr (transactions @ [t], heap')))"

subsection \<open>Business entities\<close>

text \<open>\<open>_customer_from_tree\<close>: the address lines that are present, in order.\<close>

definition customer_from_tree :: "element \<Rightarrow> Customer result" where
  "customer_from_tree tree =
     rbind (text_of (find_path [ns ''cust'' ''guid''] tree)) (\<lambda>guid.
     rbind (text_of (find_path [ns ''cust'' ''name''] tree)) (\<lambda>name.
       case find_path [ns ''cust'' ''addr''] tree of
         None \<Rightarrow> Inl AttributeError
       | Some addr_tree \<Rightarrow>
           Inr \<lparr>cu_guid = guid, cu_name = name,
                cu_address =
                  concat (map (\<lambda>l. case find_path [ns ''addr'' l] addr_tree of
                                      None \<Rightarrow> []
                                    | Some e \<Rightarrow> [etext e])
                            [''addr1'', ''addr2'', ''addr3'', ''addr4''])\<rparr>))"

text \<open>\<open>_vendor_from_tree\<close>\<close>

definition vendor_from_tree :: "element \<Rightarrow> Vendor result" where
  "vendor_from_tree tree =
     rbind (text_of (find_path [ns ''vendor'' ''guid''] tree)) (\<lambda>guid.
     rbind (text_of (find_path [ns ''vendor'' ''name''] tree)) (\<lambda>name.
       Inr \<lparr>v_guid = guid, v_name = name\<rparr>))"

text \<open>\<open>_taxtableentry_from_tree\<close> and \<open>_taxtable_from_tree\<close>\<close>

definition taxtableentry_from_tree :: "element \<Rightarrow> Taxtableentry result" where
  "taxtableentry_from_tree tree =
     rbind (text_of (find_path [ns ''tte'' ''amount''] tree)) (\<lambda>at.
     rbind (parse_number_text at) (\<lambda>tte_amount.
     rbind (text_of (find_path [ns ''tte'' ''type''] tree)) (\<lambda>tte_type.
       Inr \<lparr>tte_amount = tte_amount, tte_type = tte_type\<rparr>)))"

definition taxtable_from_tree :: "element \<Rightarrow> Taxtable result" where
  "taxtable_from_tree tree =
     rbind (text_of (find_path [ns ''taxtable'' ''guid''] tree)) (\<lambda>guid.
     rbind (text_of (find_path [ns ''taxtable'' ''name''] tree)) (\<lambda>name.
       case find_path [ns ''taxtable'' ''entries''] tree of
         None \<Rightarrow> Inl TypeError
       | Some taxtable_entries_tree \<Rightarrow>
           rbind (rfold (\<lambda>child entries.
                           rbind (taxtableentry_from_tree child) (\<lambda>e. Inr (entries @ [e])))
                    (children taxtable_entries_tree) [])
             (\<lambda>taxtable_entries.
                Inr \<lparr>tt_guid = guid, tt_name = name, tt_entries = taxtable_entries\<rparr>)))"

text \<open>\<open>_entry_from_tree\<close>\<close>

definition opt_number :: "element option \<Rightarrow> decimal option result" where
  "opt_number x =
     (case x of
        None \<Rightarrow> Inr None
      | Some e \<Rightarrow> rbind (parse_number_text (etext e)) (\<lambda>n. Inr (Some n)))"

definition entry_from_tree :: "(string option \<times> Taxtable) list \<Rightarrow> element \<Rightarrow> Entry result" where
  "entry_from_tree taxtabledict tree =
     rbind (text_of (find_path [ns ''entry'' ''guid''] tree)) (\<lambda>guid.
     rbind (opt_number (find_path [ns ''entry'' ''qty''] tree)) (\<lambda>qty.
     rbind (opt_number (find_path [ns ''entry'' ''i-price''] tree)) (\<lambda>price.
     rbind (case find_path [ns ''entry'' ''i-taxable''] tree of
              None \<Rightarrow> Inr (None, None)
            | Some tx \<Rightarrow>
                rbind (text_of (find_path [ns ''entry'' ''i-taxtable''] tree)) (\<lambda>taxtable_id.
                rbind (dict_get taxtabledict taxtable_id) (\<lambda>taxtable.
                  Inr (etext tx, Some taxtable)))) (\<lambda>(taxable, taxtable).
       Inr \<lparr>e_action = opt_text (find_path [ns ''entry'' ''action''] tree),
            e_description = opt_text (find_path [ns ''entry'' ''description''] tree),
            e_guid = guid,
            e_invoice_guid = opt_text (find_path [ns ''entry'' ''invoice''] tree),
            e_price = price, e_qty = qty,
            e_taxable = taxable, e_taxtable = taxtable\<rparr>))))"

text \<open>
  \<open>_invoice_from_tree\<close>: the owner is looked up in the dictionary that the owner
  type selects; the entries are those of \<open>entriesdict\<close> whose \<open>invoice_guid\<close> is the
  guid of the invoice.
\<close>

definition invoice_from_tree ::
  "(string option \<Rightarrow> 'd result) \<Rightarrow> (string option \<times> Customer) list
    \<Rightarrow> (string option \<times> Entry) list \<Rightarrow> (string option \<times> Vendor) list \<Rightarrow> element
    \<Rightarrow> 'd Invoice result" where
  "invoice_from_tree pd customersdict entriesdict vendorsdict tree =
     rbind (text_of (find_path [ns ''invoice'' ''guid''] tree)) (\<lambda>guid.
     rbind (text_of (find_path [ns ''invoice'' ''id''] tree)) (\<lambda>id.
     rbind (text_of (find_path [ns ''invoice'' ''opened'', ns ''ts'' ''date''] tree)) (\<lambda>dt.
     rbind (pd dt) (\<lambda>date.
       case find_path [ns ''invoice'' ''owner''] tree of
         None \<Rightarrow> Inl AttributeError
       | Some owner_tree \<Rightarrow>
     rbind (text_of (find_path [ns ''owner'' ''type''] owner_tree)) (\<lambda>owner_type.
     rbind (text_of (find_path [ns ''owner'' ''id''] owner_tree)) (\<lambda>owner_id.
     rbind (if owner_type = Some ''gncCustomer''
            then rbind (dict_get customersdict owner_id) (\<lambda>c. Inr (Some c))
            else Inr None) (\<lambda>customer.
     rbind (if owner_type = Some ''gncVendor''
            then rbind (dict_get vendorsdict owner_id) (\<lambda>v. Inr (Some v))
            else Inr None) (\<lambda>vendor.
     rbind (text_of (find_path [ns ''invoice'' ''active''] tree)) (\<lambda>active.
       Inr \<lparr>i_active = active, i_customer = customer, i_date = date, i_id = id,
            i_entries = filter (\<lambda>entry. e_invoice_guid entry = guid) (map snd entriesdict),
            i_guid = guid, i_vendor = vendor\<rparr>)))))))))"

subsection \<open>The book\<close>

text \<open>A loop that stores each parsed object in a dictionary under its guid.\<close>

definition dict_step ::
  "(element \<Rightarrow> 'v result) \<Rightarrow> ('v \<Rightarrow> string option) \<Rightarrow> element
    \<Rightarrow> (string option \<times> 'v) list \<Rightarrow> (string option \<times> 'v) list result" where
  "dict_step from_tree guid_of child d =
     rbind (from_tree child) (\<lambda>x. Inr (AList.update (guid_of x) x d))"

text \<open>\<open>_book_from_tree\<close>\<close>

definition book_from_tree :: "(string option \<Rightarrow> 'd result) \<Rightarrow> element \<Rightarrow> 'd Book result" where
  "book_from_tree pd tree =
     rbind (text_of (find_path [ns ''book'' ''id''] tree)) (\<lambda>guid.
     rbind (rfold commodity_step (findall_path [ns ''gnc'' ''commodity''] tree) ([], [], []))
       (\<lambda>(commodities, cheap0, commoditydict0).
     rbind (case find_path [ns ''gnc'' ''pricedb''] tree of
              None \<Rightarrow> Inr ([], cheap0, commoditydict0)
            | Some t \<Rightarrow>
                rfold (price_step pd) (findall_path [''price''] t) ([], cheap0, commoditydict0))
       (\<lambda>(prices, cheap, commoditydict).
     rbind (rfold (account_step pd commoditydict) (findall_path [ns ''gnc'' ''account''] tree)
              (None, [], [], []))
       (\<lambda>(root_account, aheap0, accountdict, parentdict).
     rbind (rfold (link_step accountdict parentdict) (map snd accountdict) (aheap0, []))
       (\<lambda>(aheap1, accounts).
     rbind (rfold (transaction_step pd accountdict commoditydict)
              (findall_path [ns ''gnc'' ''transaction''] tree) ([], aheap1))
       (\<lambda>(transactions, aheap).
     rbind (rfold (dict_step customer_from_tree cu_guid)
              (findall_path [ns ''gnc'' ''GncCustomer''] tree) [])
       (\<lambda>customersdict.
     rbind (rfold (dict_step vendor_from_tree v_guid)
              (findall_path [ns ''gnc'' ''GncVendor''] tree) [])
       (\<lambda>vendorsdict.
     rbind (rfold (dict_step taxtable_from_tree tt_guid)
              (findall_path [ns ''gnc'' ''GncTaxTable''] tree) [])
       (\<lambda>taxtablesdict.
     rbind (rfold (dict_step (entry_from_tree taxtablesdict) e_guid)
              (findall_path [ns ''gnc'' ''GncEntry''] tree) [])
       (\<lambda>entriesdict.
     rbind (rfold (\<lambda>child invoices.
                     rbind (invoice_from_tree pd customersdict entriesdict vendorsdict child)
                       (\<lambda>i. Inr (invoices @ [i])))
              (findall_path [ns ''gnc'' ''GncInvoice''] tree) [])
       (\<lambda>invoices.
     rbind (slots_from_tree pd (find_path [ns ''book'' ''slots''] tree)) (\<lambda>slots.
       Inr \<lparr>b_guid = guid, b_prices = prices, b_transactions = transactions,
            b_root_account = root_account, b_accounts = accounts,
            b_commodities = commodities, b_slots = slots, b_invoices = invoices,
            b_commodity_heap = cheap, b_account_heap = aheap\<rparr>))))))))))))"

text \<open>
  \<open>parse\<close>, from the root element of the parsed document: a root that is not
  \<open>gnc-v2\<close> raises \<open>ValueError\<close>.
\<close>

definition parse :: "(string option \<Rightarrow> 'd result) \<Rightarrow> element \<Rightarrow> 'd Book result" where
  "parse pd root =
     (if tag root \<noteq> ''gnc-v2'' then Inl ValueError
      else case find_path [ns ''gnc'' ''book''] root of
             None \<Rightarrow> Inl AttributeError
           | Some b \<Rightarrow> book_from_tree pd b)"

section \<open>Accounts: full names and the walk\<close>

text \<open>
  \<open>Account.fullname\<close>.  An account object is always true, so \<open>if self.parent\<close>
  tests for \<open>None\<close>; \<open>if pfn\<close> fails for \<open>None\<close> and for the empty string.  The
  result is \<open>None\<close> where Python returns \<open>self.name\<close> and that is \<open>None\<close>.  The
  recursion follows the parent links and need not end: the outer \<open>option\<close> is
  \<open>None\<close> when it does not.
\<close>

partial_function (option) fullname :: "'d Account list \<Rightarrow> addr \<Rightarrow> string option option" where
  "fullname heap self =
     (case a_parent (heap ! self) of
        None \<Rightarrow> Some (Some '''')
      | Some parent \<Rightarrow>
          Option.bind (fullname heap parent) (\<lambda>pfn.
            case pfn of
              Some (c # cs) \<Rightarrow> Some (Some ((c # cs) @ '':'' @ py_str (a_name (heap ! self))))
            | _ \<Rightarrow> Some (a_name (heap ! self))))"

text \<open>
  \<open>Account.walk\<close>, run to its end: the triples it yields, in order.  The queue
  \<open>accounts\<close> holds the accounts still to visit; \<open>None\<close> when the loop never ends.
\<close>

partial_function (option) walk_loop ::
  "'d Account list \<Rightarrow> addr list \<Rightarrow> (addr \<times> addr list \<times> 'd Split list) list option" where
  "walk_loop heap accounts =
     (case accounts of
        [] \<Rightarrow> Some []
      | acc # rest \<Rightarrow>
          Option.bind (walk_loop heap (rest @ a_children (heap ! acc))) (\<lambda>r.
            Some ((acc, a_children (heap ! acc), a_splits (heap ! acc)) # r)))"

definition walk ::
  "'d Account list \<Rightarrow> addr \<Rightarrow> (addr \<times> addr list \<times> 'd Split list) list option" where
  "walk heap self = walk_loop heap [self]"

text \<open>\<open>Book.walk\<close>: \<open>self.root_account.walk()\<close>\<close>

definition book_walk ::
  "'d Book \<Rightarrow> (addr \<times> addr list \<times> 'd Split list) list option result" where
  "book_walk book =
     (case b_root_account book of
        None \<Rightarrow> Inl AttributeError
      | Some r \<Rightarrow> Inr (walk (b_account_heap book) r))"

section \<open>Notions used to state the properties\<close>

text \<open>The owner type and owner id that an invoice element declares.\<close>

definition owner_type :: "element \<Rightarrow> string option" where
  "owner_type tree =
     (case find_path [ns ''invoice'' ''owner''] tree of
        None \<Rightarrow> None
      | Some owner_tree \<Rightarrow> opt_text (find_path [ns ''owner'' ''type''] owner_tree))"

definition owner_id :: "element \<Rightarrow> string option" where
  "owner_id tree =
     (case find_path [ns ''invoice'' ''owner''] tree of
        None \<Rightarrow> None
      | Some owner_tree \<Rightarrow> opt_text (find_path [ns ''owner'' ''id''] owner_tree))"

text \<open>The key of a slot element.\<close>

definition slot_key :: "element \<Rightarrow> string option" where
  "slot_key elt = opt_text (find_path [ns ''slot'' ''key''] elt)"

text \<open>An amount with exactly two decimal places; a NaN.\<close>

definition two_decimal :: "decimal \<Rightarrow> bool" where
  "two_decimal d = (case d of Finite s c e \<Rightarrow> e = - 2 | _ \<Rightarrow> False)"

definition is_nan :: "decimal \<Rightarrow> bool" where
  "is_nan d = (case d of NaN s signal p \<Rightarrow> True | _ \<Rightarrow> False)"

text \<open>
  \<open>typed_per_tag pd v x\<close>: the value \<open>x\<close> is typed as the type tag of the value
  element \<open>v\<close> says (a missing tag counts as \<open>string\<close>).  For \<open>integer\<close> and
  \<open>double\<close>: the signed integer that \<open>int\<close> reads from the text.  For
  \<open>numeric\<close>: the number that the fraction parser returns on the text, which has
  two decimal places or is a NaN.  For \<open>string\<close> and \<open>guid\<close>: the text.  For
  \<open>gdate\<close>: what the date parser returns on the text of the \<open>gdate\<close> child.  For
  \<open>timespec\<close>: what the date parser returns on the text of the \<open>ts:date\<close> child.
  For \<open>frame\<close>: the mapping that the slot parser returns on \<open>v\<close> itself.
\<close>

definition typed_per_tag :: "(string option \<Rightarrow> 'd result) \<Rightarrow> element \<Rightarrow> 'd slot_value \<Rightarrow> bool" where
  "typed_per_tag pd v x =
     (let ty = get_attr v ''type'' ''string'' in
      if ty = ''integer'' \<or> ty = ''double'' then
        (case x of SInt i \<Rightarrow> py_int (etext v) = Inr i | _ \<Rightarrow> False)
      else if ty = ''numeric'' then
        (case x of
           SDecimal n \<Rightarrow> parse_number_text (etext v) = Inr n \<and> (two_decimal n \<or> is_nan n)
         | _ \<Rightarrow> False)
      else if ty = ''string'' \<or> ty = ''guid'' then x = SText (etext v)
      else if ty = ''gdate'' then
        (case x of
           SDate d \<Rightarrow> rbind (text_of (find_path [''gdate''] v)) pd = Inr d
         | _ \<Rightarrow> False)
      else if ty = ''timespec'' then
        (case x of
           SDate d \<Rightarrow> rbind (text_of (find_path [ns ''ts'' ''date''] v)) pd = Inr d
         | _ \<Rightarrow> False)
      else if ty = ''frame'' then
        (case x of SFrame m \<Rightarrow> slots_from_tree pd (Some v) = Inr m | _ \<Rightarrow> False)
      else False)"

section \<open>Sample documents\<close>

definition leaf :: "string \<Rightarrow> string \<Rightarrow> element" where
  "leaf t s = Element t [] (Some s) []"

definition node :: "string \<Rightarrow> element list \<Rightarrow> element" where
  "node t cs = Element t [] None cs"

definition slot :: "string \<Rightarrow> element \<Rightarrow> element" where
  "slot k v = node ''slot'' [leaf (ns ''slot'' ''key'') k, v]"

definition typed_value :: "string \<Rightarrow> string \<Rightarrow> element" where
  "typed_value ty s = Element (ns ''slot'' ''value'') [(''type'', ty)] (Some s) []"

text \<open>
  A frame of slots with every type tag, a repeated key, an untyped value and a nested
  frame; and a frame whose only slot is a \<open>double\<close> that is not an integer.
\<close>

definition sample_slots :: element where
  "sample_slots =
     node (ns ''act'' ''slots'')
       [slot ''placeholder'' (typed_value ''string'' ''true''),
        slot ''notes'' (leaf (ns ''slot'' ''value'') ''petty cash''),
        slot ''color'' (typed_value ''integer'' ''-7''),
        slot ''weight'' (typed_value ''double'' ''12''),
        slot ''rate'' (typed_value ''numeric'' ''333/1000''),
        slot ''opened''
          (Element (ns ''slot'' ''value'') [(''type'', ''timespec'')] None
             [leaf (ns ''ts'' ''date'') ''2017-03-01 10:00:00 +0100'']),
        slot ''reconcile-info''
          (Element (ns ''slot'' ''value'') [(''type'', ''frame'')] None
             [slot ''last-date'' (typed_value ''guid'' ''0b1f''),
              slot ''placeholder''
                (Element (ns ''slot'' ''value'') [(''type'', ''gdate'')] None
                   [leaf ''gdate'' ''2017-03-01''])]),
        slot ''placeholder'' (typed_value ''string'' ''false'')]"

definition sample_slots_mapping :: "string option slots" where
  "sample_slots_mapping =
     [(Some ''placeholder'', SText (Some ''false'')),
      (Some ''notes'', SText (Some ''petty cash'')),
      (Some ''color'', SInt (- 7)),
      (Some ''weight'', SInt 12),
      (Some ''rate'', SDecimal (Finite False 34 (- 2))),
      (Some ''opened'', SDate (Some ''2017-03-01 10:00:00 +0100'')),
      (Some ''reconcile-info'',
         SFrame [(Some ''last-date'', SText (Some ''0b1f'')),
                 (Some ''placeholder'', SDate (Some ''2017-03-01''))])]"



text \<open>Two invoices: one owned by a customer, one by a job.\<close>

definition invoice_elem :: "string \<Rightarrow> string \<Rightarrow> string \<Rightarrow> string \<Rightarrow> element" where
  "invoice_elem guid inum otype oid =
     node (ns ''gnc'' ''GncInvoice'')
       [leaf (ns ''invoice'' ''guid'') guid,
        leaf (ns ''invoice'' ''id'') inum,
        node (ns ''invoice'' ''owner'')
          [leaf (ns ''owner'' ''type'') otype, leaf (ns ''owner'' ''id'') oid],
        node (ns ''invoice'' ''opened'') [leaf (ns ''ts'' ''date'') ''2017-03-01''],
        leaf (ns ''invoice'' ''active'') ''1'']"

definition customer_invoice :: element where
  "customer_invoice = invoice_elem ''i1'' ''000001'' ''gncCustomer'' ''c1''"

definition job_invoice :: element where
  "job_invoice = invoice_elem ''i2'' ''000002'' ''gncJob'' ''j1''"

definition customer1 :: Customer where
  "customer1 = \<lparr>cu_guid = Some ''c1'', cu_name = Some ''ACME'', cu_address = [Some ''Main Street 1'']\<rparr>"

text \<open>
  A book with a price database, accounts declared before their parents, an account
  with an empty name element, two account records with the same guid, a transaction
  with two splits, and three entry records of one invoice, two of them with the same
  guid.
\<close>

definition commodity_ref :: "string \<Rightarrow> string \<Rightarrow> string \<Rightarrow> element" where
  "commodity_ref t space name =
     node t [leaf (ns ''cmdty'' ''space'') space, leaf (ns ''cmdty'' ''id'') name]"

definition dated :: "string \<Rightarrow> string \<Rightarrow> element" where
  "dated t d = node t [leaf (ns ''ts'' ''date'') d]"

definition account_elem :: "element \<Rightarrow> string \<Rightarrow> string \<Rightarrow> string \<Rightarrow> element" where
  "account_elem name guid actype parent =
     node (ns ''gnc'' ''account'')
       [name,
        leaf (ns ''act'' ''id'') guid,
        leaf (ns ''act'' ''type'') actype,
        commodity_ref (ns ''act'' ''commodity'') ''ISO4217'' ''EUR'',
        leaf (ns ''act'' ''commodity-scu'') ''100'',
        leaf (ns ''act'' ''parent'') parent]"

definition split_elem :: "string \<Rightarrow> string \<Rightarrow> string \<Rightarrow> element" where
  "split_elem guid amount account =
     node (ns ''trn'' ''split'')
       [leaf (ns ''split'' ''id'') guid,
        leaf (ns ''split'' ''reconciled-state'') ''n'',
        leaf (ns ''split'' ''value'') amount,
        leaf (ns ''split'' ''quantity'') amount,
        leaf (ns ''split'' ''account'') account]"

definition entry_elem :: "string \<Rightarrow> string \<Rightarrow> string \<Rightarrow> element" where
  "entry_elem guid description invoice =
     node (ns ''gnc'' ''GncEntry'')
       [leaf (ns ''entry'' ''guid'') guid,
        leaf (ns ''entry'' ''description'') description,
        leaf (ns ''entry'' ''invoice'') invoice]"

definition sample_book :: element where
  "sample_book =
     node (ns ''gnc'' ''book'')
       [leaf (ns ''book'' ''id'') ''b1'',
        commodity_ref (ns ''gnc'' ''commodity'') ''ISO4217'' ''EUR'',
        node (ns ''gnc'' ''pricedb'')
          [node ''price''
             [leaf (ns ''price'' ''id'') ''p1'',
              commodity_ref (ns ''price'' ''commodity'') ''ISO4217'' ''USD'',
              commodity_ref (ns ''price'' ''currency'') ''ISO4217'' ''EUR'',
              dated (ns ''price'' ''time'') ''2017-01-02'',
              leaf (ns ''price'' ''value'') ''333/1000'']],
        node (ns ''gnc'' ''account'')
          [leaf (ns ''act'' ''name'') ''Root Account'',
           leaf (ns ''act'' ''id'') ''r'',
           leaf (ns ''act'' ''type'') ''ROOT''],
        account_elem (leaf (ns ''act'' ''name'') ''Checking'') ''chk'' ''BANK'' ''ast'',
        account_elem (leaf (ns ''act'' ''name'') ''Assets'') ''ast'' ''ASSET'' ''r'',
        account_elem (node (ns ''act'' ''name'') []) ''x'' ''EXPENSE'' ''r'',
        account_elem (leaf (ns ''act'' ''name'') ''Travel'') ''trv'' ''EXPENSE'' ''x'',
        account_elem (leaf (ns ''act'' ''name'') ''Old'') ''dup'' ''INCOME'' ''r'',
        account_elem (leaf (ns ''act'' ''name'') ''New'') ''dup'' ''INCOME'' ''r'',
        node (ns ''gnc'' ''transaction'')
          [leaf (ns ''trn'' ''id'') ''t1'',
           commodity_ref (ns ''trn'' ''currency'') ''ISO4217'' ''EUR'',
           dated (ns ''trn'' ''date-posted'') ''2017-01-03'',
           dated (ns ''trn'' ''date-entered'') ''2017-01-04'',
           leaf (ns ''trn'' ''description'') ''Transfer'',
           node (ns ''trn'' ''splits'')
             [split_elem ''s1'' ''100/100'' ''chk'', split_elem ''s2'' ''-100/100'' ''ast'']],
        node (ns ''gnc'' ''GncCustomer'')
          [leaf (ns ''cust'' ''guid'') ''c1'',
           leaf (ns ''cust'' ''name'') ''ACME'',
           node (ns ''cust'' ''addr'') [leaf (ns ''addr'' ''addr1'') ''Main Street 1'']],
        entry_elem ''e1'' ''Hours'' ''i1'',
        entry_elem ''e2'' ''Travel'' ''i1'',
        entry_elem ''e2'' ''Hotel'' ''i1'',
        customer_invoice,
        job_invoice]"

text \<open>The book that the loader builds from \<open>sample_book\<close>, the date parser being \<open>Inr\<close>.\<close>

definition eur :: Commodity where
  "eur = \<lparr>c_name = Some ''EUR'', c_space = Some ''ISO4217''\<rparr>"

definition usd :: Commodity where
  "usd = \<lparr>c_name = Some ''USD'', c_space = Some ''ISO4217''\<rparr>"

definition sample_split :: "string \<Rightarrow> bool \<Rightarrow> addr \<Rightarrow> string option Split" where
  "sample_split guid neg account =
     \<lparr>s_guid = Some guid, s_memo = None, s_reconciled_state = Some ''n'',
      s_reconcile_date = None, s_value = Finite neg 100 (- 2),
      s_quantity = Finite neg 100 (- 2), s_account = account, s_transaction = 0,
      s_action = None, s_slots = []\<rparr>"

definition sample_account ::
  "string option \<Rightarrow> string \<Rightarrow> string \<Rightarrow> addr option \<Rightarrow> addr list \<Rightarrow> string option Split list
    \<Rightarrow> string option Account" where
  "sample_account name guid actype parent chn splits =
     \<lparr>a_name = name, a_guid = Some guid, a_actype = Some actype, a_description = None,
      a_parent = parent, a_children = chn, a_commodity = Some 1,
      a_commodity_scu = Some ''100'', a_splits = splits, a_slots = []\<rparr>"

definition sample_root :: "addr list \<Rightarrow> string option Account" where
  "sample_root chn =
     \<lparr>a_name = Some ''Root Account'', a_guid = Some ''r'', a_actype = Some ''ROOT'',
      a_description = None, a_parent = None, a_children = chn, a_commodity = None,
      a_commodity_scu = None, a_splits = [], a_slots = []\<rparr>"

definition sample_entry :: "string \<Rightarrow> string \<Rightarrow> Entry" where
  "sample_entry guid description =
     \<lparr>e_action = None, e_description = Some description, e_guid = Some guid,
      e_invoice_guid = Some ''i1'', e_price = None, e_qty = None, e_taxable = None,
      e_taxtable = None\<rparr>"

definition sample_heap :: "string option Account list" where
  "sample_heap =
     [sample_root [2, 3, 6],
      sample_account (Some ''Checking'') ''chk'' ''BANK'' (Some 2) [] [sample_split ''s1'' False 1],
      sample_account (Some ''Assets'') ''ast'' ''ASSET'' (Some 0) [1] [sample_split ''s2'' True 2],
      sample_account None ''x'' ''EXPENSE'' (Some 0) [4] [],
      sample_account (Some ''Travel'') ''trv'' ''EXPENSE'' (Some 3) [] [],
      sample_account (Some ''Old'') ''dup'' ''INCOME'' None [] [],
      sample_account (Some ''New'') ''dup'' ''INCOME'' (Some 0) [] []]"

definition sample_loaded :: "string option Book" where
  "sample_loaded =
     \<lparr>b_guid = Some ''b1'',
      b_prices = [\<lparr>p_guid = Some ''p1'', p_commodity = 3, p_currency = 1,
                    p_date = Some ''2017-01-02'', p_value = Finite False 34 (- 2)\<rparr>],
      b_transactions =
        [\<lparr>t_guid = Some ''t1'', t_currency = 1, t_date = Some ''2017-01-03'',
           t_post_date = Some ''2017-01-03'', t_date_entered = Some ''2017-01-04'',
           t_description = Some ''Transfer'', t_num = None,
           t_splits = [sample_split ''s1'' False 1, sample_split ''s2'' True 2],
           t_slots = []\<rparr>],
      b_root_account = Some 0,
      b_accounts = [1, 2, 3, 4, 6],
      b_commodities = [1],
      b_slots = [],
      b_invoices =
        [\<lparr>i_active = Some ''1'', i_customer = Some customer1, i_date = Some ''2017-03-01'',
           i_id = Some ''000001'',
           i_entries = [sample_entry ''e1'' ''Hours'', sample_entry ''e2'' ''Hotel''],
           i_guid = Some ''i1'', i_vendor = None\<rparr>,
         \<lparr>i_active = Some ''1'', i_customer = None, i_date = Some ''2017-03-01'',
           i_id = Some ''000002'', i_entries = [], i_guid = Some ''i2'', i_vendor = None\<rparr>],
      b_commodity_heap = [eur, eur, eur, usd],
      b_account_heap = sample_heap\<rparr>"

section \<open>Basic facts\<close>

lemma rbind_Inr_iff: "rbind m f = Inr y \<longleftrightarrow> (\<exists>x. m = Inr x \<and> f x = Inr y)"
  by (cases m) (simp_all add: rbind_def)

lemma rbind_Inr [simp]: "rbind (Inr x) f = f x"
  by (simp add: rbind_def)

lemma rbind_Inl [simp]: "rbind (Inl e) f = Inl e"
  by (simp add: rbind_def)

lemma text_of_Inr_iff: "text_of x = Inr t \<longleftrightarrow> (\<exists>e. x = Some e \<and> etext e = t)"
  by (cases x) (auto simp: text_of_def)

lemma dict_get_Inr_iff: "dict_get d k = Inr v \<longleftrightarrow> map_of d k = Some v"
  by (simp add: dict_get_def split: option.splits)

lemmas xml_eval = find_path_def findall_path.simps ns_def leaf_def node_def text_of_def
  opt_text_def dict_get_def get_attr_def slot_def typed_value_def

section \<open>Evaluation rules\<close>

text \<open>
  The recursive digit functions unfold on numerals only, so that the simplifier
  evaluates them on concrete coefficients and leaves them alone elsewhere.
\<close>

lemma ndigits_numeral [simp]:
  "ndigits (numeral w) =
     (if (numeral w :: nat) < 10 then 1 else Suc (ndigits (numeral w div 10)))"
  by (rule ndigits.simps)

lemma ndigits_0 [simp]: "ndigits 0 = 1"
  by (simp add: ndigits.simps)

lemma ndigits_1 [simp]: "ndigits 1 = 1" "ndigits (Suc 0) = 1"
  by (simp_all add: ndigits.simps)

lemma digits_of_numeral [simp]:
  "digits_of (numeral w) =
     (if (numeral w :: nat) < 10 then [digit_char (numeral w)]
      else digits_of (numeral w div 10) @ [digit_char (numeral w mod 10)])"
  by (rule digits_of.simps)

lemma digits_of_0 [simp]: "digits_of 0 = ''0''"
  by (simp add: digits_of.simps digit_char_def)

lemma digits_of_1 [simp]: "digits_of 1 = ''1''" "digits_of (Suc 0) = ''1''"
  by (simp_all add: digits_of.simps digit_char_def)

lemma strip_zeros_numeral [simp]:
  "strip_zeros (numeral w) ex ideal_exp =
     (if ex < ideal_exp \<and> (numeral w :: nat) mod 10 = 0
      then strip_zeros (numeral w div 10) (ex + 1) ideal_exp
      else (numeral w, ex))"
  by (rule strip_zeros.simps)

lemma strip_zeros_1 [simp]:
  "strip_zeros 1 ex ideal_exp = (1, ex)" "strip_zeros (Suc 0) ex ideal_exp = (Suc 0, ex)"
  by (simp_all add: strip_zeros.simps)

lemma check_nans_finite [simp]: "check_nans ctx (Finite sx cx ex) (Finite sy cy ey) = None"
  by (simp add: check_nans_def)

lemma divide_finite:
  "divide ctx (Finite sx cx ex) (Finite sy cy ey) =
     (if cy = 0 then (if cx = 0 then Inl InvalidOperation else Inl DivisionByZero)
      else if cx = 0 then fix_finite ctx (sx \<noteq> sy) 0 (ex - ey)
      else
        let shift = int (ndigits cy) - int (ndigits cx) + int (prec ctx) + 1;
            ex0 = ex - ey - shift;
            num = (if shift \<ge> 0 then cx * 10 ^ nat shift else cx);
            den = (if shift \<ge> 0 then cy else cy * 10 ^ nat (- shift));
            coeff = num div den;
            remainder = num mod den
        in if remainder \<noteq> 0
           then fix_finite ctx (sx \<noteq> sy)
                  (if coeff mod 5 = 0 then coeff + 1 else coeff) ex0
           else (case strip_zeros coeff ex0 (ex - ey) of
                   (coeff', ex') \<Rightarrow> fix_finite ctx (sx \<noteq> sy) coeff' ex'))"
  by (simp add: divide_def)

lemma quantize_finite:
  "quantize ctx (Finite s c e) (Finite sq cq eq) rnd =
     (if \<not> (Etiny ctx \<le> eq \<and> eq \<le> Emax ctx) then Inl InvalidOperation
      else if c = 0 then fix_finite ctx s 0 eq
      else if e + int (ndigits c) - 1 > Emax ctx then Inl InvalidOperation
      else if e + int (ndigits c) - 1 - eq + 1 > int (prec ctx) then Inl InvalidOperation
      else
        (case rescale s c e eq rnd of
           Finite s' c' e' \<Rightarrow>
             (if e' + int (ndigits c') - 1 > Emax ctx then Inl InvalidOperation
              else if ndigits c' > prec ctx then Inl InvalidOperation
              else fix_finite ctx s' c' e')
         | _ \<Rightarrow> Inl InvalidOperation))"
  by (simp add: quantize_def)

lemmas str_eval = strip_def isspace_def isdigit_def digits_val_def digit_val_def digit_char_def
  lower_def parse_exp_def parse_finite_def parse_special_def Decimal_def Let_def signed_str_def
  MAX_EMAX_def MIN_ETINY_def

lemmas ctx_eval = DefaultContext_def Etiny_def Etop_def

lemma Decimal_point_01: "Decimal ''.01'' = Inr (Finite False 1 (- 2))"
  by (simp add: str_eval)

text \<open>The fraction parser on the amounts of the sample documents.\<close>

lemma parse_number_333_1000:
  "parse_number ''333/1000'' = Inr (Finite False 34 (- 2))"
proof -
  have a: "Decimal ''333'' = Inr (Finite False 333 (0))"
    by (simp add: str_eval)
  have b: "Decimal ''1000'' = Inr (Finite False 1000 (0))"
    by (simp add: str_eval)
  have c: "divide DefaultContext (Finite False 333 (0)) (Finite False 1000 (0)) = Inr (Finite False 333 (- 3))"
    apply (simp add: divide_finite ctx_eval cong: let_weak_cong)
    apply (simp add: fix_finite_def ctx_eval cong: let_weak_cong)
    done
  have d: "decimal_str (Finite False 333 (- 3)) = ''0.333''"
    by (simp add: decimal_str_def str_eval cong: let_weak_cong)
  have e: "Decimal ''0.333'' = Inr (Finite False 333 (- 3))"
    by (simp add: str_eval)
  have f: "quantize DefaultContext (Finite False 333 (- 3)) (Finite False 1 (- 2)) ROUND_UP = Inr (Finite False 34 (- 2))"
    apply (simp add: quantize_finite ctx_eval rescale_def cong: let_weak_cong)
    apply (simp add: fix_finite_def ctx_eval cong: let_weak_cong)
    done
  show ?thesis
    by (simp add: parse_number_def rbind_def a b c d e Decimal_point_01 f del: One_nat_def)
qed

lemma parse_number_100_100:
  "parse_number ''100/100'' = Inr (Finite False 100 (- 2))"
proof -
  have a: "Decimal ''100'' = Inr (Finite False 100 (0))"
    by (simp add: str_eval)
  have b: "Decimal ''100'' = Inr (Finite False 100 (0))"
    by (simp add: str_eval)
  have c: "divide DefaultContext (Finite False 100 (0)) (Finite False 100 (0)) = Inr (Finite False 1 (0))"
    apply (simp add: divide_finite ctx_eval cong: let_weak_cong)
    apply (simp add: fix_finite_def ctx_eval cong: let_weak_cong)
    done
  have d: "decimal_str (Finite False 1 (0)) = ''1''"
    by (simp add: decimal_str_def str_eval cong: let_weak_cong)
  have e: "Decimal ''1'' = Inr (Finite False 1 (0))"
    by (simp add: str_eval)
  have f: "quantize DefaultContext (Finite False 1 (0)) (Finite False 1 (- 2)) ROUND_UP = Inr (Finite False 100 (- 2))"
    apply (simp add: quantize_finite ctx_eval rescale_def cong: let_weak_cong)
    apply (simp add: fix_finite_def ctx_eval cong: let_weak_cong)
    done
  show ?thesis
    by (simp add: parse_number_def rbind_def a b c d e Decimal_point_01 f del: One_nat_def)
qed

lemma parse_number_m100_100:
  "parse_number ''-100/100'' = Inr (Finite True 100 (- 2))"
proof -
  have a: "Decimal ''-100'' = Inr (Finite True 100 (0))"
    by (simp add: str_eval)
  have b: "Decimal ''100'' = Inr (Finite False 100 (0))"
    by (simp add: str_eval)
  have c: "divide DefaultContext (Finite True 100 (0)) (Finite False 100 (0)) = Inr (Finite True 1 (0))"
    apply (simp add: divide_finite ctx_eval cong: let_weak_cong)
    apply (simp add: fix_finite_def ctx_eval cong: let_weak_cong)
    done
  have d: "decimal_str (Finite True 1 (0)) = ''-1''"
    by (simp add: decimal_str_def str_eval cong: let_weak_cong)
  have e: "Decimal ''-1'' = Inr (Finite True 1 (0))"
    by (simp add: str_eval)
  have f: "quantize DefaultContext (Finite True 1 (0)) (Finite False 1 (- 2)) ROUND_UP = Inr (Finite True 100 (- 2))"
    apply (simp add: quantize_finite ctx_eval rescale_def cong: let_weak_cong)
    apply (simp add: fix_finite_def ctx_eval cong: let_weak_cong)
    done
  show ?thesis
    by (simp add: parse_number_def rbind_def a b c d e Decimal_point_01 f del: One_nat_def)
qed

section \<open>Loading the sample book\<close>

lemmas doc_eval = commodity_ref_def dated_def account_elem_def split_elem_def entry_elem_def
  customer_invoice_def job_invoice_def invoice_elem_def

lemma sample_children:
  "findall_path [ns ''book'' ''id''] sample_book = [leaf (ns ''book'' ''id'') ''b1'']"
  "findall_path [ns ''gnc'' ''commodity''] sample_book =
     [commodity_ref (ns ''gnc'' ''commodity'') ''ISO4217'' ''EUR'']"
  "findall_path [ns ''gnc'' ''pricedb''] sample_book =
     [node (ns ''gnc'' ''pricedb'')
          [node ''price''
             [leaf (ns ''price'' ''id'') ''p1'',
              commodity_ref (ns ''price'' ''commodity'') ''ISO4217'' ''USD'',
              commodity_ref (ns ''price'' ''currency'') ''ISO4217'' ''EUR'',
              dated (ns ''price'' ''time'') ''2017-01-02'',
              leaf (ns ''price'' ''value'') ''333/1000'']]]"
  "findall_path [ns ''gnc'' ''account''] sample_book =
     [node (ns ''gnc'' ''account'')
          [leaf (ns ''act'' ''name'') ''Root Account'',
           leaf (ns ''act'' ''id'') ''r'',
           leaf (ns ''act'' ''type'') ''ROOT''],
      account_elem (leaf (ns ''act'' ''name'') ''Checking'') ''chk'' ''BANK'' ''ast'',
      account_elem (leaf (ns ''act'' ''name'') ''Assets'') ''ast'' ''ASSET'' ''r'',
      account_elem (node (ns ''act'' ''name'') []) ''x'' ''EXPENSE'' ''r'',
      account_elem (leaf (ns ''act'' ''name'') ''Travel'') ''trv'' ''EXPENSE'' ''x'',
      account_elem (leaf (ns ''act'' ''name'') ''Old'') ''dup'' ''INCOME'' ''r'',
      account_elem (leaf (ns ''act'' ''name'') ''New'') ''dup'' ''INCOME'' ''r'']"
  "findall_path [ns ''gnc'' ''transaction''] sample_book =
     [node (ns ''gnc'' ''transaction'')
          [leaf (ns ''trn'' ''id'') ''t1'',
           commodity_ref (ns ''trn'' ''currency'') ''ISO4217'' ''EUR'',
           dated (ns ''trn'' ''date-posted'') ''2017-01-03'',
           dated (ns ''trn'' ''date-entered'') ''2017-01-04'',
           leaf (ns ''trn'' ''description'') ''Transfer'',
           node (ns ''trn'' ''splits'')
             [split_elem ''s1'' ''100/100'' ''chk'', split_elem ''s2'' ''-100/100'' ''ast'']]]"
  "findall_path [ns ''gnc'' ''GncCustomer''] sample_book =
     [node (ns ''gnc'' ''GncCustomer'')
          [leaf (ns ''cust'' ''guid'') ''c1'',
           leaf (ns ''cust'' ''name'') ''ACME'',
           node (ns ''cust'' ''addr'') [leaf (ns ''addr'' ''addr1'') ''Main Street 1'']]]"
  "findall_path [ns ''gnc'' ''GncVendor''] sample_book = []"
  "findall_path [ns ''gnc'' ''GncTaxTable''] sample_book = []"
  "findall_path [ns ''gnc'' ''GncEntry''] sample_book =
     [entry_elem ''e1'' ''Hours'' ''i1'', entry_elem ''e2'' ''Travel'' ''i1'',
      entry_elem ''e2'' ''Hotel'' ''i1'']"
  "findall_path [ns ''gnc'' ''GncInvoice''] sample_book = [customer_invoice, job_invoice]"
  "findall_path [ns ''book'' ''slots''] sample_book = []"
  by (simp_all add: sample_book_def findall_path.simps ns_def leaf_def node_def doc_eval)

lemma sample_commodities:
  "rfold commodity_step (findall_path [ns ''gnc'' ''commodity''] sample_book) ([], [], []) =
     Inr ([1], [eur, eur], [((Some ''ISO4217'', Some ''EUR''), 1)])"
  unfolding sample_children
  by (simp add: commodity_step_def commodity_from_tree_def commodity_find_def
      commodity_ref_def xml_eval eur_def)

lemma sample_prices:
  "(case find_path [ns ''gnc'' ''pricedb''] sample_book of
      None \<Rightarrow> Inr ([], [eur, eur], [((Some ''ISO4217'', Some ''EUR''), 1)])
    | Some t \<Rightarrow> rfold (price_step Inr) (findall_path [''price''] t)
                  ([], [eur, eur], [((Some ''ISO4217'', Some ''EUR''), 1)])) =
     Inr ([\<lparr>p_guid = Some ''p1'', p_commodity = 3, p_currency = 1,
             p_date = Some ''2017-01-02'', p_value = Finite False 34 (- 2)\<rparr>],
          [eur, eur, eur, usd],
          [((Some ''ISO4217'', Some ''EUR''), 1), ((Some ''ISO4217'', Some ''USD''), 3)])"
  unfolding find_path_def sample_children
  by (simp add: price_step_def price_from_tree_def commodity_find_def parse_number_text_def
      parse_number_333_1000 commodity_ref_def dated_def xml_eval eur_def usd_def)

lemma sample_accounts_pass1:
  "rfold (account_step Inr [((Some ''ISO4217'', Some ''EUR''), 1), ((Some ''ISO4217'', Some ''USD''), 3)])
     (findall_path [ns ''gnc'' ''account''] sample_book) (None, [], [], []) =
   Inr (Some 0,
        [sample_root [],
         sample_account (Some ''Checking'') ''chk'' ''BANK'' None [] [],
         sample_account (Some ''Assets'') ''ast'' ''ASSET'' None [] [],
         sample_account None ''x'' ''EXPENSE'' None [] [],
         sample_account (Some ''Travel'') ''trv'' ''EXPENSE'' None [] [],
         sample_account (Some ''Old'') ''dup'' ''INCOME'' None [] [],
         sample_account (Some ''New'') ''dup'' ''INCOME'' None [] []],
        [(Some ''r'', 0), (Some ''chk'', 1), (Some ''ast'', 2), (Some ''x'', 3),
         (Some ''trv'', 4), (Some ''dup'', 6)],
        [(Some ''r'', None), (Some ''chk'', Some ''ast''), (Some ''ast'', Some ''r''),
         (Some ''x'', Some ''r''), (Some ''trv'', Some ''x''), (Some ''dup'', Some ''r'')])"
  unfolding sample_children
  by (simp add: account_step_def account_from_tree_def slots_from_tree_def account_elem_def
      commodity_ref_def xml_eval sample_root_def sample_account_def)

lemma sample_accounts_pass2:
  "rfold (link_step
            [(Some ''r'', 0), (Some ''chk'', 1), (Some ''ast'', 2), (Some ''x'', 3),
             (Some ''trv'', 4), (Some ''dup'', 6)]
            [(Some ''r'', None), (Some ''chk'', Some ''ast''), (Some ''ast'', Some ''r''),
             (Some ''x'', Some ''r''), (Some ''trv'', Some ''x''), (Some ''dup'', Some ''r'')])
     (map snd [(Some ''r'', 0::nat), (Some ''chk'', 1), (Some ''ast'', 2), (Some ''x'', 3),
             (Some ''trv'', 4), (Some ''dup'', 6)])
     ([sample_root [],
       sample_account (Some ''Checking'') ''chk'' ''BANK'' None [] [],
       sample_account (Some ''Assets'') ''ast'' ''ASSET'' None [] [],
       sample_account None ''x'' ''EXPENSE'' None [] [],
       sample_account (Some ''Travel'') ''trv'' ''EXPENSE'' None [] [],
       sample_account (Some ''Old'') ''dup'' ''INCOME'' None [] [],
       sample_account (Some ''New'') ''dup'' ''INCOME'' None [] []], []) =
   Inr ([sample_root [2, 3, 6],
         sample_account (Some ''Checking'') ''chk'' ''BANK'' (Some 2) [] [],
         sample_account (Some ''Assets'') ''ast'' ''ASSET'' (Some 0) [1] [],
         sample_account None ''x'' ''EXPENSE'' (Some 0) [4] [],
         sample_account (Some ''Travel'') ''trv'' ''EXPENSE'' (Some 3) [] [],
         sample_account (Some ''Old'') ''dup'' ''INCOME'' None [] [],
         sample_account (Some ''New'') ''dup'' ''INCOME'' (Some 0) [] []],
        [1, 2, 3, 4, 6])"
  by (simp add: link_step_def dict_get_def Let_def sample_root_def sample_account_def)

lemma sample_transactions:
  "rfold (transaction_step Inr
            [(Some ''r'', 0), (Some ''chk'', 1), (Some ''ast'', 2), (Some ''x'', 3),
             (Some ''trv'', 4), (Some ''dup'', 6)]
            [((Some ''ISO4217'', Some ''EUR''), 1), ((Some ''ISO4217'', Some ''USD''), 3)])
     (findall_path [ns ''gnc'' ''transaction''] sample_book)
     ([], [sample_root [2, 3, 6],
         sample_account (Some ''Checking'') ''chk'' ''BANK'' (Some 2) [] [],
         sample_account (Some ''Assets'') ''ast'' ''ASSET'' (Some 0) [1] [],
         sample_account None ''x'' ''EXPENSE'' (Some 0) [4] [],
         sample_account (Some ''Travel'') ''trv'' ''EXPENSE'' (Some 3) [] [],
         sample_account (Some ''Old'') ''dup'' ''INCOME'' None [] [],
         sample_account (Some ''New'') ''dup'' ''INCOME'' (Some 0) [] []]) =
   Inr ([\<lparr>t_guid = Some ''t1'', t_currency = 1, t_date = Some ''2017-01-03'',
           t_post_date = Some ''2017-01-03'', t_date_entered = Some ''2017-01-04'',
           t_description = Some ''Transfer'', t_num = None,
           t_splits = [sample_split ''s1'' False 1, sample_split ''s2'' True 2],
           t_slots = []\<rparr>], sample_heap)"
  unfolding sample_children
  by (simp add: transaction_step_def transaction_from_tree_def split_step_def split_from_tree_def
      slots_from_tree_def parse_number_text_def Let_def parse_number_100_100 parse_number_m100_100
      split_elem_def commodity_ref_def dated_def xml_eval
      sample_root_def sample_account_def sample_split_def sample_heap_def)

lemma sample_business:
  "rfold (dict_step customer_from_tree cu_guid)
     (findall_path [ns ''gnc'' ''GncCustomer''] sample_book) [] = Inr [(Some ''c1'', customer1)]"
  "rfold (dict_step vendor_from_tree v_guid)
     (findall_path [ns ''gnc'' ''GncVendor''] sample_book) [] = Inr []"
  "rfold (dict_step taxtable_from_tree tt_guid)
     (findall_path [ns ''gnc'' ''GncTaxTable''] sample_book) [] = Inr []"
  "rfold (dict_step (entry_from_tree []) e_guid)
     (findall_path [ns ''gnc'' ''GncEntry''] sample_book) [] =
     Inr [(Some ''e1'', sample_entry ''e1'' ''Hours''), (Some ''e2'', sample_entry ''e2'' ''Hotel'')]"
  unfolding sample_children
  by (simp_all add: dict_step_def customer_from_tree_def entry_from_tree_def opt_number_def
      entry_elem_def xml_eval customer1_def sample_entry_def)

lemma sample_invoices:
  "rfold (\<lambda>child invoices.
            rbind (invoice_from_tree Inr [(Some ''c1'', customer1)]
                     [(Some ''e1'', sample_entry ''e1'' ''Hours''),
                      (Some ''e2'', sample_entry ''e2'' ''Hotel'')] [] child)
              (\<lambda>i. Inr (invoices @ [i])))
     (findall_path [ns ''gnc'' ''GncInvoice''] sample_book) [] =
   Inr [\<lparr>i_active = Some ''1'', i_customer = Some customer1, i_date = Some ''2017-03-01'',
           i_id = Some ''000001'',
           i_entries = [sample_entry ''e1'' ''Hours'', sample_entry ''e2'' ''Hotel''],
           i_guid = Some ''i1'', i_vendor = None\<rparr>,
         \<lparr>i_active = Some ''1'', i_customer = None, i_date = Some ''2017-03-01'',
           i_id = Some ''000002'', i_entries = [], i_guid = Some ''i2'', i_vendor = None\<rparr>]"
  unfolding sample_children
  by (simp add: invoice_from_tree_def customer_invoice_def job_invoice_def invoice_elem_def
      xml_eval sample_entry_def)

lemma sample_book_loads: "book_from_tree Inr sample_book = Inr sample_loaded"
  unfolding book_from_tree_def sample_commodities rbind_Inr prod.case sample_prices
    sample_accounts_pass1 sample_accounts_pass2 sample_transactions sample_business
    sample_invoices
  by (simp add: find_path_def sample_children leaf_def text_of_def slots_from_tree_def
      sample_loaded_def)

section \<open>Loops and dictionaries\<close>

lemma book_from_treeE [consumes 1, case_names book]:
  assumes "book_from_tree pd tree = Inr book"
  obtains guid commodities cheap0 commoditydict0 prices cheap commoditydict root_account aheap0
    accountdict parentdict aheap1 accounts transactions aheap customersdict vendorsdict
    taxtablesdict entriesdict invoices slots
  where "text_of (find_path [ns ''book'' ''id''] tree) = Inr guid"
    and "rfold commodity_step (findall_path [ns ''gnc'' ''commodity''] tree) ([], [], [])
           = Inr (commodities, cheap0, commoditydict0)"
    and "(case find_path [ns ''gnc'' ''pricedb''] tree of
            None \<Rightarrow> Inr ([], cheap0, commoditydict0)
          | Some t \<Rightarrow> rfold (price_step pd) (findall_path [''price''] t) ([], cheap0, commoditydict0))
           = Inr (prices, cheap, commoditydict)"
    and "rfold (account_step pd commoditydict) (findall_path [ns ''gnc'' ''account''] tree)
           (None, [], [], []) = Inr (root_account, aheap0, accountdict, parentdict)"
    and "rfold (link_step accountdict parentdict) (map snd accountdict) (aheap0, [])
           = Inr (aheap1, accounts)"
    and "rfold (transaction_step pd accountdict commoditydict)
           (findall_path [ns ''gnc'' ''transaction''] tree) ([], aheap1) = Inr (transactions, aheap)"
    and "rfold (dict_step customer_from_tree cu_guid)
           (findall_path [ns ''gnc'' ''GncCustomer''] tree) [] = Inr customersdict"
    and "rfold (dict_step vendor_from_tree v_guid)
           (findall_path [ns ''gnc'' ''GncVendor''] tree) [] = Inr vendorsdict"
    and "rfold (dict_step taxtable_from_tree tt_guid)
           (findall_path [ns ''gnc'' ''GncTaxTable''] tree) [] = Inr taxtablesdict"
    and "rfold (dict_step (entry_from_tree taxtablesdict) e_guid)
           (findall_path [ns ''gnc'' ''GncEntry''] tree) [] = Inr entriesdict"
    and "rfold (\<lambda>child invoices.
                  rbind (invoice_from_tree pd customersdict entriesdict vendorsdict child)
                    (\<lambda>i. Inr (invoices @ [i])))
           (findall_path [ns ''gnc'' ''GncInvoice''] tree) [] = Inr invoices"
    and "slots_from_tree pd (find_path [ns ''book'' ''slots''] tree) = Inr slots"
    and "book = \<lparr>b_guid = guid, b_prices = prices, b_transactions = transactions,
            b_root_account = root_account, b_accounts = accounts,
            b_commodities = commodities, b_slots = slots, b_invoices = invoices,
            b_commodity_heap = cheap, b_account_heap = aheap\<rparr>"
  using assms by (auto simp: book_from_tree_def rbind_Inr_iff split: prod.splits)

lemma rfold_invariant:
  assumes "rfold f xs s = Inr s'" and "P s"
    and "\<And>x s s'. x \<in> set xs \<Longrightarrow> P s \<Longrightarrow> f x s = Inr s' \<Longrightarrow> P s'"
  shows "P s'"
  using assms
proof (induction xs arbitrary: s)
  case Nil
  then show ?case by simp
next
  case (Cons x xs)
  from Cons.prems(1) obtain s1 where s1: "f x s = Inr s1" "rfold f xs s1 = Inr s'"
    by (auto simp: rbind_Inr_iff)
  from Cons.prems(3) [of x s s1] Cons.prems(2) s1(1) have "P s1" by simp
  show ?case
  proof (rule Cons.IH [OF s1(2) \<open>P s1\<close>])
    fix y t t'
    assume "y \<in> set xs" "P t" "f y t = Inr t'"
    with Cons.prems(3) [of y t t'] show "P t'" by simp
  qed
qed

lemma rfold_dict_step:
  assumes "rfold (dict_step from_tree guid_of) els d0 = Inr d"
  shows "\<exists>xs. list_all2 (\<lambda>el x. from_tree el = Inr x) els xs \<and>
              d = fold (\<lambda>x. AList.update (guid_of x) x) xs d0"
  using assms
proof (induction els arbitrary: d0)
  case Nil
  then show ?case by simp
next
  case (Cons el els)
  from Cons.prems obtain d1 where d1: "dict_step from_tree guid_of el d0 = Inr d1"
    and r1: "rfold (dict_step from_tree guid_of) els d1 = Inr d"
    by (auto simp: rbind_Inr_iff)
  from d1 obtain x where x: "from_tree el = Inr x" and "d1 = AList.update (guid_of x) x d0"
    by (auto simp: rbind_Inr_iff dict_step_def)
  with r1 have r: "rfold (dict_step from_tree guid_of) els (AList.update (guid_of x) x d0) = Inr d"
    by simp
  from Cons.IH [OF r] obtain xs where
    "list_all2 (\<lambda>el x. from_tree el = Inr x) els xs"
    "d = fold (\<lambda>x. AList.update (guid_of x) x) xs (AList.update (guid_of x) x d0)"
    by blast
  with x have "list_all2 (\<lambda>el x. from_tree el = Inr x) (el # els) (x # xs) \<and>
               d = fold (\<lambda>x. AList.update (guid_of x) x) (x # xs) d0"
    by simp
  then show ?case by blast
qed

lemma distinct_fold_update:
  "distinct (map fst d0) \<Longrightarrow> distinct (map fst (fold (\<lambda>x. AList.update (g x) x) xs d0))"
  by (induction xs arbitrary: d0) (simp_all add: distinct_update)

lemma map_of_fold_update:
  "map_of (fold (\<lambda>x. AList.update (g x) x) xs d0)
     = map_of d0 ++ map_of (rev (map (\<lambda>x. (g x, x)) xs))"
proof (induction xs arbitrary: d0)
  case Nil
  then show ?case by simp
next
  case (Cons x xs)
  show ?case
    by (simp add: Cons.IH update_conv' fun_eq_iff map_add_def split: option.splits)
qed

lemma map_of_rev_last:
  "map_of (rev (map (\<lambda>x. (g x, x)) xs)) k = Some v \<longleftrightarrow>
     (\<exists>pre post. xs = pre @ v # post \<and> g v = k \<and> k \<notin> g ` set post)"
proof (induction xs rule: rev_induct)
  case Nil
  then show ?case by simp
next
  case (snoc y xs)
  show ?case
  proof (cases "k = g y")
    case True
    have "(\<exists>pre post. xs @ [y] = pre @ v # post \<and> g v = k \<and> k \<notin> g ` set post) \<longleftrightarrow> v = y"
    proof
      assume "\<exists>pre post. xs @ [y] = pre @ v # post \<and> g v = k \<and> k \<notin> g ` set post"
      then obtain pre post where p: "xs @ [y] = pre @ v # post" "k \<notin> g ` set post" by blast
      show "v = y"
      proof (cases post rule: rev_cases)
        case Nil
        with p show ?thesis by simp
      next
        case (snoc post' z)
        with p(1) have "z = y" by (metis append_assoc append_Cons last_snoc)
        with snoc p(2) True show ?thesis by simp
      qed
    next
      assume "v = y"
      with True have "xs @ [y] = xs @ v # [] \<and> g v = k \<and> k \<notin> g ` set []" by simp
      then show "\<exists>pre post. xs @ [y] = pre @ v # post \<and> g v = k \<and> k \<notin> g ` set post" by blast
    qed
    with True show ?thesis by auto
  next
    case False
    have "(\<exists>pre post. xs @ [y] = pre @ v # post \<and> g v = k \<and> k \<notin> g ` set post) \<longleftrightarrow>
          (\<exists>pre post. xs = pre @ v # post \<and> g v = k \<and> k \<notin> g ` set post)"
    proof
      assume "\<exists>pre post. xs @ [y] = pre @ v # post \<and> g v = k \<and> k \<notin> g ` set post"
      then obtain pre post where p: "xs @ [y] = pre @ v # post" "g v = k" "k \<notin> g ` set post"
        by blast
      show "\<exists>pre post. xs = pre @ v # post \<and> g v = k \<and> k \<notin> g ` set post"
      proof (cases post rule: rev_cases)
        case Nil
        with p False show ?thesis by auto
      next
        case (snoc post' z)
        with p(1) have "xs = pre @ v # post'" by (metis append_assoc append_Cons butlast_snoc)
        moreover from snoc p(3) have "k \<notin> g ` set post'" by simp
        ultimately show ?thesis using p(2) by blast
      qed
    next
      assume "\<exists>pre post. xs = pre @ v # post \<and> g v = k \<and> k \<notin> g ` set post"
      then obtain pre post where p: "xs = pre @ v # post" "g v = k" "k \<notin> g ` set post"
        by blast
      with False have "xs @ [y] = pre @ v # (post @ [y]) \<and> g v = k \<and> k \<notin> g ` set (post @ [y])"
        by auto
      then show "\<exists>pre post. xs @ [y] = pre @ v # post \<and> g v = k \<and> k \<notin> g ` set post"
        by blast
    qed
    with False snoc.IH show ?thesis by simp
  qed
qed

text \<open>The values of a dictionary filled by a loop: of each key, the last object stored.\<close>

lemma values_fold_update:
  "set (map snd (fold (\<lambda>x. AList.update (g x) x) xs [])) =
     {v. \<exists>pre post. xs = pre @ v # post \<and> g v \<notin> g ` set post}"
proof -
  let ?d = "fold (\<lambda>x. AList.update (g x) x) xs []"
  have d: "distinct (map fst ?d)" by (simp add: distinct_fold_update)
  have m: "map_of ?d = map_of (rev (map (\<lambda>x. (g x, x)) xs))"
    by (simp add: map_of_fold_update)
  have "v \<in> set (map snd ?d) \<longleftrightarrow> (\<exists>k. map_of ?d k = Some v)" for v
    using d by (force simp: map_of_eq_Some_iff)
  then have "v \<in> set (map snd ?d) \<longleftrightarrow>
      (\<exists>pre post. xs = pre @ v # post \<and> g v \<notin> g ` set post)" for v
    unfolding m map_of_rev_last by blast
  then show ?thesis by blast
qed

lemma values_fold_update_distinct:
  assumes "distinct (map g xs)"
  shows "set (map snd (fold (\<lambda>x. AList.update (g x) x) xs [])) = set xs"
proof -
  have "(\<exists>pre post. xs = pre @ v # post \<and> g v \<notin> g ` set post) \<longleftrightarrow> v \<in> set xs" for v
  proof
    assume "v \<in> set xs"
    then obtain pre post where p: "xs = pre @ v # post" by (auto simp: in_set_conv_decomp)
    with assms have "g v \<notin> g ` set post" by auto
    with p show "\<exists>pre post. xs = pre @ v # post \<and> g v \<notin> g ` set post" by blast
  qed auto
  then have "{v. \<exists>pre post. xs = pre @ v # post \<and> g v \<notin> g ` set post} = set xs"
    by blast
  with values_fold_update [of g xs] show ?thesis by simp
qed

section \<open>Invoices\<close>

text \<open>
  Claim C5, amended.  A parsed invoice never has both a customer and a vendor, and
  the owner type decides which one it has: for \<open>gncCustomer\<close> the customer is the
  entry of the customer map under the owner id and the vendor is empty; for
  \<open>gncVendor\<close> the vendor is the entry of the vendor map and the customer is
  empty; for any other owner type both are empty.
\<close>

theorem invoice_owner_by_type:
  assumes "invoice_from_tree pd customersdict entriesdict vendorsdict tree = Inr invoice"
  shows "(owner_type tree = Some ''gncCustomer'' \<longrightarrow>
            i_customer invoice = map_of customersdict (owner_id tree) \<and> i_customer invoice \<noteq> None \<and>
            i_vendor invoice = None) \<and>
         (owner_type tree = Some ''gncVendor'' \<longrightarrow>
            i_vendor invoice = map_of vendorsdict (owner_id tree) \<and> i_vendor invoice \<noteq> None \<and>
            i_customer invoice = None) \<and>
         (owner_type tree \<noteq> Some ''gncCustomer'' \<and> owner_type tree \<noteq> Some ''gncVendor'' \<longrightarrow>
            i_customer invoice = None \<and> i_vendor invoice = None)"
  using assms
  by (auto simp: invoice_from_tree_def rbind_Inr_iff text_of_Inr_iff dict_get_Inr_iff
        owner_type_def owner_id_def opt_text_def
      split: option.splits if_splits)

lemma customer_invoice_parse:
  "invoice_from_tree Inr [(Some ''c1'', customer1)] [] [] customer_invoice =
     Inr \<lparr>i_active = Some ''1'', i_customer = Some customer1, i_date = Some ''2017-03-01'',
          i_id = Some ''000001'', i_entries = [], i_guid = Some ''i1'', i_vendor = None\<rparr>"
  by (simp add: invoice_from_tree_def customer_invoice_def invoice_elem_def xml_eval)

theorem invoice_owner_by_type_witness:
  "invoice_from_tree Inr [(Some ''c1'', customer1)] [] [] customer_invoice =
     Inr \<lparr>i_active = Some ''1'', i_customer = Some customer1, i_date = Some ''2017-03-01'',
          i_id = Some ''000001'', i_entries = [], i_guid = Some ''i1'', i_vendor = None\<rparr> \<and>
   owner_type customer_invoice = Some ''gncCustomer'' \<and>
   Some customer1 = map_of [(Some ''c1'', customer1)] (owner_id customer_invoice)"
  using invoice_owner_by_type [OF customer_invoice_parse] customer_invoice_parse
  by (simp add: owner_type_def customer_invoice_def invoice_elem_def xml_eval)

text \<open>
  Claim C5 as stated fails: an invoice whose owner is a job is parsed with neither a
  customer nor a vendor.
\<close>

theorem job_invoice_has_no_owner:
  "invoice_from_tree Inr [] [] [] job_invoice =
     Inr \<lparr>i_active = Some ''1'', i_customer = None, i_date = Some ''2017-03-01'',
          i_id = Some ''000002'', i_entries = [], i_guid = Some ''i2'', i_vendor = None\<rparr>"
  by (simp add: invoice_from_tree_def job_invoice_def invoice_elem_def xml_eval)

section \<open>Slots\<close>

text \<open>Quantizing to the exponent of \<open>Decimal('.01')\<close> gives two decimal places or a NaN.\<close>

lemma fix_finite_small:
  assumes "ndigits c \<le> 28"
  shows "fix_finite DefaultContext s c (- 2) = Inr (Finite s c (- 2))"
  using assms by (simp add: fix_finite_def ctx_eval Let_def)

lemma quantize_two_decimal:
  assumes "quantize DefaultContext a (Finite False 1 (- 2)) rnd = Inr n"
  shows "two_decimal n \<or> is_nan n"
proof (cases a)
  case (Finite s c e)
  have "\<exists>c'. rescale s c e (- 2) rnd = Finite s c' (- 2)"
    by (simp add: rescale_def Let_def)
  then obtain c' where c': "rescale s c e (- 2) rnd = Finite s c' (- 2)" ..
  have p: "prec DefaultContext = 28"
    by (simp add: DefaultContext_def)
  show ?thesis
  proof (cases "c = 0")
    case True
    with assms Finite fix_finite_small [of 0 s] have "n = Finite s 0 (- 2)"
      by (simp add: quantize_finite split: if_splits)
    then show ?thesis by (simp add: two_decimal_def)
  next
    case False
    with assms Finite c' have "ndigits c' \<le> 28 \<and> fix_finite DefaultContext s c' (- 2) = Inr n"
      by (simp add: quantize_finite p split: if_splits)
    with fix_finite_small [of c' s] have "n = Finite s c' (- 2)"
      by simp
    then show ?thesis by (simp add: two_decimal_def)
  qed
next
  case (Infinity s)
  with assms show ?thesis by (simp add: quantize_def check_nans_def)
next
  case (NaN s signal p)
  with assms show ?thesis
    by (cases signal) (auto simp: quantize_def check_nans_def fix_nan_def is_nan_def)
qed

lemma parse_number_two_decimal:
  assumes "parse_number s = Inr n"
  shows "two_decimal n \<or> is_nan n"
proof -
  from assms obtain a where "quantize DefaultContext a (Finite False 1 (- 2)) ROUND_UP = Inr n"
    by (auto simp: parse_number_def rbind_Inr_iff Decimal_point_01 split: list.splits)
  then show ?thesis by (rule quantize_two_decimal)
qed

lemma parse_number_text_two_decimal:
  assumes "parse_number_text t = Inr n"
  shows "two_decimal n \<or> is_nan n"
proof (cases t)
  case None
  with assms show ?thesis by (simp add: parse_number_text_def)
next
  case (Some s)
  with assms have "parse_number s = Inr n" by (simp add: parse_number_text_def)
  then show ?thesis by (rule parse_number_two_decimal)
qed


lemma slots_loop_Cons_Inr:
  assumes "slots_loop pd (elt # elts) s = Inr m"
  shows "\<exists>k v x. find_path [ns ''slot'' ''key''] elt = Some k \<and>
           find_path [ns ''slot'' ''value''] elt = Some v \<and> typed_per_tag pd v x \<and>
           slots_loop pd elts (AList.update (etext k) x s) = Inr m"
proof -
  from assms obtain k where k: "find_path [ns ''slot'' ''key''] elt = Some k"
    by (auto simp: rbind_Inr_iff text_of_Inr_iff)
  from assms k obtain v where v: "find_path [ns ''slot'' ''value''] elt = Some v"
    by (auto simp: text_of_def split: option.splits)
  let ?ty = "get_attr v ''type'' ''string''"
  let ?P = "\<lambda>x. typed_per_tag pd v x \<and> slots_loop pd elts (AList.update (etext k) x s) = Inr m"
  from assms k v have a:
    "(if ?ty = ''integer'' \<or> ?ty = ''double'' then
        rbind (py_int (etext v)) (\<lambda>i. slots_loop pd elts (AList.update (etext k) (SInt i) s))
      else if ?ty = ''numeric'' then
        rbind (parse_number_text (etext v)) (\<lambda>n.
          slots_loop pd elts (AList.update (etext k) (SDecimal n) s))
      else if ?ty = ''string'' \<or> ?ty = ''guid'' then
        slots_loop pd elts (AList.update (etext k) (SText (etext v)) s)
      else if ?ty = ''gdate'' then
        rbind (text_of (find_path [''gdate''] v)) (\<lambda>t.
        rbind (pd t) (\<lambda>d. slots_loop pd elts (AList.update (etext k) (SDate d) s)))
      else if ?ty = ''timespec'' then
        rbind (text_of (find_path [ns ''ts'' ''date''] v)) (\<lambda>t.
        rbind (pd t) (\<lambda>d. slots_loop pd elts (AList.update (etext k) (SDate d) s)))
      else if ?ty = ''frame'' then
        rbind (slots_loop pd (findall_path [''slot''] v) []) (\<lambda>m'.
          slots_loop pd elts (AList.update (etext k) (SFrame m') s))
      else Inl RuntimeError) = Inr m"
    by (simp add: text_of_def Let_def)
  have "\<exists>x. ?P x"
  proof -
    consider (int) "?ty = ''integer'' \<or> ?ty = ''double''"
      | (num) "?ty = ''numeric''"
      | (str) "?ty = ''string'' \<or> ?ty = ''guid''"
      | (gdate) "?ty = ''gdate''"
      | (ts) "?ty = ''timespec''"
      | (frame) "?ty = ''frame''"
      | (other) "?ty \<notin> {''integer'', ''double'', ''numeric'', ''string'', ''guid'', ''gdate'',
                          ''timespec'', ''frame''}"
      by auto
    then show ?thesis
    proof cases
      case int
      with a obtain i where "py_int (etext v) = Inr i"
        "slots_loop pd elts (AList.update (etext k) (SInt i) s) = Inr m"
        by (auto simp: rbind_Inr_iff)
      with int have "?P (SInt i)" by (auto simp: typed_per_tag_def)
      then show ?thesis ..
    next
      case num
      with a obtain n where n: "parse_number_text (etext v) = Inr n"
        "slots_loop pd elts (AList.update (etext k) (SDecimal n) s) = Inr m"
        by (auto simp: rbind_Inr_iff)
      with num parse_number_text_two_decimal [OF n(1)] have "?P (SDecimal n)"
        by (simp add: typed_per_tag_def)
      then show ?thesis ..
    next
      case str
      with a have "slots_loop pd elts (AList.update (etext k) (SText (etext v)) s) = Inr m"
        by (auto split: if_splits)
      with str have "?P (SText (etext v))" by (auto simp: typed_per_tag_def)
      then show ?thesis ..
    next
      case gdate
      with a obtain d where "rbind (text_of (find_path [''gdate''] v)) pd = Inr d"
        "slots_loop pd elts (AList.update (etext k) (SDate d) s) = Inr m"
        by (auto simp: rbind_Inr_iff)
      with gdate have "?P (SDate d)" by (simp add: typed_per_tag_def)
      then show ?thesis ..
    next
      case ts
      with a obtain d where "rbind (text_of (find_path [ns ''ts'' ''date''] v)) pd = Inr d"
        "slots_loop pd elts (AList.update (etext k) (SDate d) s) = Inr m"
        by (auto simp: rbind_Inr_iff)
      with ts have "?P (SDate d)" by (simp add: typed_per_tag_def)
      then show ?thesis ..
    next
      case frame
      with a obtain m' where "slots_loop pd (findall_path [''slot''] v) [] = Inr m'"
        "slots_loop pd elts (AList.update (etext k) (SFrame m') s) = Inr m"
        by (auto simp: rbind_Inr_iff)
      with frame have "?P (SFrame m')" by (simp add: typed_per_tag_def slots_from_tree_def)
      then show ?thesis ..
    next
      case other
      with a show ?thesis by simp
    qed
  qed
  with k v show ?thesis by blast
qed


lemma slots_loop_keys:
  assumes "slots_loop pd elts s = Inr m"
  shows "(distinct (map fst s) \<longrightarrow> distinct (map fst m)) \<and>
         fst ` set m = fst ` set s \<union> slot_key ` set elts \<and>
         (\<forall>k x. map_of m k = Some x \<longrightarrow>
            (if k \<in> slot_key ` set elts
             then \<exists>v. find_path [ns ''slot'' ''value'']
                          (last (filter (\<lambda>e. slot_key e = k) elts)) = Some v \<and>
                       typed_per_tag pd v x
             else map_of s k = Some x))"
  using assms
proof (induction elts arbitrary: s)
  case Nil
  then show ?case by simp
next
  case (Cons elt elts)
  from slots_loop_Cons_Inr [OF Cons.prems] obtain k0 v0 x0 where
    k0: "find_path [ns ''slot'' ''key''] elt = Some k0" and
    v0: "find_path [ns ''slot'' ''value''] elt = Some v0" and
    x0: "typed_per_tag pd v0 x0" and
    rest: "slots_loop pd elts (AList.update (etext k0) x0 s) = Inr m"
    by blast
  have key: "slot_key elt = etext k0"
    by (simp add: slot_key_def k0 opt_text_def)
  note IH = Cons.IH [OF rest]
  have d: "distinct (map fst s) \<longrightarrow> distinct (map fst m)"
    using IH by (simp add: distinct_update)
  have dom: "fst ` set m = fst ` set s \<union> slot_key ` set (elt # elts)"
    using IH by (auto simp: key dom_update image_Un)
  have val: "if k \<in> slot_key ` set (elt # elts)
             then \<exists>v. find_path [ns ''slot'' ''value'']
                          (last (filter (\<lambda>e. slot_key e = k) (elt # elts))) = Some v \<and>
                       typed_per_tag pd v x
             else map_of s k = Some x" if m: "map_of m k = Some x" for k x
  proof (cases "k \<in> slot_key ` set elts")
    case True
    then have "filter (\<lambda>e. slot_key e = k) elts \<noteq> []"
      by (auto simp: filter_empty_conv)
    with True IH m show ?thesis by auto
  next
    case False
    with IH m have u: "map_of (AList.update (etext k0) x0 s) k = Some x" by auto
    from False have e: "filter (\<lambda>e. slot_key e = k) elts = []"
      by (auto simp: filter_empty_conv)
    show ?thesis
    proof (cases "k = etext k0")
      case True
      with u have "x = x0" by (simp add: update_conv')
      with True e v0 x0 key show ?thesis by simp
    next
      case False
      with u have "map_of s k = Some x" by (simp add: update_conv')
      with False \<open>k \<notin> slot_key ` set elts\<close> key show ?thesis by auto
    qed
  qed
  from d dom val show ?case by blast
qed

lemma py_int_m7: "py_int (Some ''-7'') = Inr (- 7)"
  by (simp add: py_int_def int_space_def int_max_str_digits_def isdigit_def
      digits_val_def digit_val_def Let_def)

lemma py_int_12: "py_int (Some ''12'') = Inr 12"
  by (simp add: py_int_def int_space_def int_max_str_digits_def isdigit_def
      digits_val_def digit_val_def Let_def)



lemma sample_slots_parse:
  "slots_from_tree Inr (Some sample_slots) = Inr sample_slots_mapping"
  by (simp add: slots_from_tree_def sample_slots_def sample_slots_mapping_def slot_def
      typed_value_def xml_eval get_attr_def py_int_m7 py_int_12 parse_number_text_def
      parse_number_333_1000)




lemma typed_per_tag_untyped:
  assumes "map_of (attrib v) ''type'' = None" "typed_per_tag pd v x"
  shows "x = SText (etext v)"
  using assms by (simp add: typed_per_tag_def get_attr_def)

text \<open>
  Claim C10.  A slot whose value element has no \<open>type\<close> attribute is handled as a
  string: the loop binds the key to the raw text of the value element and goes on to
  the next slot without raising; in the mapping returned for a frame the key is bound
  to that text, unless a later slot of the frame has the same key.
\<close>

theorem untyped_slot_is_string:
  assumes key: "find_path [ns ''slot'' ''key''] elt = Some k"
      and val: "find_path [ns ''slot'' ''value''] elt = Some v"
      and notype: "map_of (attrib v) ''type'' = None"
  shows "slots_loop pd (elt # elts) slots =
           slots_loop pd elts (AList.update (etext k) (SText (etext v)) slots) \<and>
         (\<forall>t pre post m.
            findall_path [''slot''] t = pre @ elt # post \<longrightarrow>
            etext k \<notin> slot_key ` set post \<longrightarrow>
            slots_from_tree pd (Some t) = Inr m \<longrightarrow>
            map_of m (etext k) = Some (SText (etext v)))"
proof (intro conjI allI impI)
  from notype have ty: "get_attr v ''type'' ''string'' = ''string''"
    by (simp add: get_attr_def)
  show "slots_loop pd (elt # elts) slots =
          slots_loop pd elts (AList.update (etext k) (SText (etext v)) slots)"
    by (simp add: key val ty text_of_def)
next
  fix t pre post m
  assume fa: "findall_path [''slot''] t = pre @ elt # post"
    and later: "etext k \<notin> slot_key ` set post"
    and ok: "slots_from_tree pd (Some t) = Inr m"
  have sk: "slot_key elt = etext k"
    by (simp add: slot_key_def key opt_text_def)
  from ok fa have l: "slots_loop pd (pre @ elt # post) [] = Inr m"
    by (simp add: slots_from_tree_def)
  note r = slots_loop_keys [OF l]
  from r sk have "etext k \<in> fst ` set m" by auto
  then obtain x where x: "map_of m (etext k) = Some x"
    by (cases "map_of m (etext k)") (auto simp: map_of_eq_None_iff)
  from later have "\<forall>e\<in>set post. slot_key e \<noteq> etext k"
    by (metis imageI)
  then have "filter (\<lambda>e. slot_key e = etext k) post = []"
    by (simp add: filter_empty_conv)
  with sk have "last (filter (\<lambda>e. slot_key e = etext k) (pre @ elt # post)) = elt"
    by simp
  with r x sk have "\<exists>v'. find_path [ns ''slot'' ''value''] elt = Some v' \<and> typed_per_tag pd v' x"
    by (auto split: if_splits)
  with val have "typed_per_tag pd v x" by simp
  with notype x show "map_of m (etext k) = Some (SText (etext v))"
    by (simp add: typed_per_tag_untyped)
qed

theorem untyped_slot_is_string_witness:
  "find_path [ns ''slot'' ''key''] (slot ''notes'' (leaf (ns ''slot'' ''value'') ''petty cash''))
     = Some (leaf (ns ''slot'' ''key'') ''notes'') \<and>
   find_path [ns ''slot'' ''value''] (slot ''notes'' (leaf (ns ''slot'' ''value'') ''petty cash''))
     = Some (leaf (ns ''slot'' ''value'') ''petty cash'') \<and>
   map_of (attrib (leaf (ns ''slot'' ''value'') ''petty cash'')) ''type'' = None \<and>
   slots_loop Inr [slot ''notes'' (leaf (ns ''slot'' ''value'') ''petty cash'')] [] =
     Inr [(Some ''notes'', SText (Some ''petty cash''))] \<and>
   findall_path [''slot''] sample_slots =
     take 1 (children sample_slots) @
     slot ''notes'' (leaf (ns ''slot'' ''value'') ''petty cash'') # drop 2 (children sample_slots) \<and>
   Some ''notes'' \<notin> slot_key ` set (drop 2 (children sample_slots)) \<and>
   slots_from_tree Inr (Some sample_slots) = Inr sample_slots_mapping \<and>
   map_of sample_slots_mapping (Some ''notes'') = Some (SText (Some ''petty cash''))"
proof -
  let ?elt = "slot ''notes'' (leaf (ns ''slot'' ''value'') ''petty cash'')"
  have k: "find_path [ns ''slot'' ''key''] ?elt = Some (leaf (ns ''slot'' ''key'') ''notes'')"
    by (simp add: slot_def xml_eval)
  have v: "find_path [ns ''slot'' ''value''] ?elt = Some (leaf (ns ''slot'' ''value'') ''petty cash'')"
    by (simp add: slot_def xml_eval)
  have a: "map_of (attrib (leaf (ns ''slot'' ''value'') ''petty cash'')) ''type'' = None"
    by (simp add: leaf_def)
  have t: "tag (slot key val) = ''slot''" for key val
    by (simp add: slot_def node_def)
  have sk: "slot_key (slot key val) = Some key" for key val
    by (simp add: slot_key_def slot_def opt_text_def xml_eval)
  have f: "findall_path [''slot''] sample_slots =
     take 1 (children sample_slots) @ ?elt # drop 2 (children sample_slots)"
    by (simp add: findall_path_single sample_slots_def node_def t)
  have l: "Some ''notes'' \<notin> slot_key ` set (drop 2 (children sample_slots))"
    by (simp add: sample_slots_def node_def sk)
  note r = untyped_slot_is_string [OF k v a, of Inr "[]" "[]"]
  from r have 1: "slots_loop Inr [?elt] [] = Inr [(Some ''notes'', SText (Some ''petty cash''))]"
    by (simp add: leaf_def)
  from r have "findall_path [''slot''] sample_slots =
       take 1 (children sample_slots) @ ?elt # drop 2 (children sample_slots) \<longrightarrow>
     etext (leaf (ns ''slot'' ''key'') ''notes'') \<notin> slot_key ` set (drop 2 (children sample_slots)) \<longrightarrow>
     slots_from_tree Inr (Some sample_slots) = Inr sample_slots_mapping \<longrightarrow>
     map_of sample_slots_mapping (etext (leaf (ns ''slot'' ''key'') ''notes'')) =
       Some (SText (etext (leaf (ns ''slot'' ''value'') ''petty cash'')))"
    by blast
  with f l sample_slots_parse
  have 2: "map_of sample_slots_mapping (Some ''notes'') = Some (SText (Some ''petty cash''))"
    by (simp add: leaf_def)
  from k v a 1 f l sample_slots_parse 2 show ?thesis
    by (intro conjI)
qed


end
